theory Spec2Isabelle
  imports Main "HOL-Library.Sublist"
begin

section \<open>Source positions, spans and errors\<close>

text \<open>
  The translator (\<^verbatim>\<open>HandlebarsNodeVisitors\<close>) works on the locations of the Handlebars
  syntax tree: a position is a line and a column, a location a start and an end position.
  JavaScript strings are modelled as lists of code units below 256 (\<^typ>\<open>string\<close>), so that
  \<^verbatim>\<open>s.length\<close> is \<^term>\<open>length s\<close>; line and column numbers are natural numbers.
\<close>

record Position =
  line :: nat
  column :: nat

record SourceLocation =
  loc_start :: Position
  loc_end :: Position

type_synonym SourceSpan = SourceLocation

text \<open>
  Modelled from the spec: \<^verbatim>\<open>source.spanFor\<close> and \<^verbatim>\<open>SourceSpan.collapse\<close> are not part of
  the sources at hand. A span is a start and an end in one coordinate system; the span for
  a location covers that location, and collapsing a span to its end gives the zero-width
  span at its end.
\<close>

definition spanFor :: "SourceLocation \<Rightarrow> SourceSpan" where
  "spanFor l = l"

definition collapse_end :: "SourceSpan \<Rightarrow> SourceSpan" where
  "collapse_end sp = \<lparr>loc_start = loc_end sp, loc_end = loc_end sp\<rparr>"

text \<open>
  Modelled from the spec: \<^verbatim>\<open>NON_EXISTENT_LOCATION\<close> is the sentinel location given to a
  block body that the upstream parser left without one.
\<close>

definition NON_EXISTENT_LOCATION :: SourceLocation where
  "NON_EXISTENT_LOCATION =
     \<lparr>loc_start = \<lparr>line = 1, column = 0\<rparr>, loc_end = \<lparr>line = 1, column = 0\<rparr>\<rparr>"

text \<open>
  \<^verbatim>\<open>generateSyntaxError(message, span)\<close> is a \<open>SyntaxError\<close>; reading a property of
  \<^verbatim>\<open>undefined\<close> is a \<open>TypeError\<close>; \<^verbatim>\<open>throw new Error(message)\<close> is a \<open>PlainError\<close>.
\<close>

datatype error =
    SyntaxError string SourceSpan
  | TypeError
  | PlainError string

subsection \<open>String operations of the JavaScript runtime\<close>

definition newline :: char where
  "newline = CHR 0x0A"

text \<open>
  A JavaScript number is carried by the translator and printed by the builder; nothing is
  computed with it. It is modelled by the text that \<^verbatim>\<open>String(value)\<close> gives for it, so that
  the number \<open>10\<close> is the one whose text is \<open>10\<close>, and \<open>1e21\<close> the one whose text is
  \<open>1e+21\<close>; the two zeros, which print alike, are not told apart.
\<close>

datatype js_number = Number_with_text (number_text: string)

definition String_number :: "js_number \<Rightarrow> string" where
  "String_number n = number_text n"

text \<open>\<^verbatim>\<open>parts.join(sep)\<close>\<close>

fun join :: "string \<Rightarrow> string list \<Rightarrow> string" where
  "join sep [] = []"
| "join sep [x] = x"
| "join sep (x # y # ys) = x @ sep @ join sep (y # ys)"

text \<open>\<^verbatim>\<open>s.split(c)\<close> for a separator of one character: never an empty list.\<close>

fun split_char :: "char \<Rightarrow> string \<Rightarrow> string list" where
  "split_char c [] = [[]]"
| "split_char c (x # xs) =
     (if x = c then [] # split_char c xs
      else (case split_char c xs of
              [] \<Rightarrow> [[x]]
            | y # ys \<Rightarrow> (x # y) # ys))"

text \<open>
  \<^verbatim>\<open>s.split(sep)\<close> for a separator string: the pieces between the leftmost,
  non-overlapping occurrences of \<open>sep\<close>; with the empty separator, the single characters.
\<close>

function js_split :: "string \<Rightarrow> string \<Rightarrow> string list" where
  "js_split sep s =
     (if sep = [] then map (\<lambda>c. [c]) s
      else if s = [] then [[]]
      else if prefix sep s then [] # js_split sep (drop (length sep) s)
      else (case js_split sep (tl s) of
              [] \<Rightarrow> [[hd s]]
            | y # ys \<Rightarrow> (hd s # y) # ys))"
  by pat_completeness auto
termination
  by (relation "measure (\<lambda>(sep, s). length s)") (auto simp: neq_Nil_conv)

declare js_split.simps [simp del]

text \<open>
  \<^verbatim>\<open>original.match(/^this(\..+)?$/)\<close>: the text is \<open>this\<close>, or \<open>this.\<close> followed by one or
  more characters none of which is a line terminator (the regular expression's dot matches
  no line terminator, and \<open>$\<close> only the end of the text).
\<close>

definition is_line_terminator :: "char \<Rightarrow> bool" where
  "is_line_terminator c = (c = CHR 0x0A \<or> c = CHR 0x0D)"

definition matches_this :: "string \<Rightarrow> bool" where
  "matches_this original =
     (original = ''this'' \<or>
      (take 5 original = ''this.'' \<and> drop 5 original \<noteq> [] \<and>
       list_all (\<lambda>c. \<not> is_line_terminator c) (drop 5 original)))"

section \<open>The translator: expressions\<close>

subsection \<open>The Handlebars syntax tree (input)\<close>

record StripFlags =
  strip_open :: bool
  strip_close :: bool

datatype HBS_Expression =
    HBS_PathExpression (hbs_data: bool) (hbs_parts: "string list") (hbs_original: string)
      (hbs_path_loc: SourceLocation)
  | HBS_SubExpression HBS_Expression "HBS_Expression list" "HBS_Hash option" SourceLocation
  | HBS_StringLiteral string SourceLocation
  | HBS_BooleanLiteral bool SourceLocation
  | HBS_NumberLiteral js_number SourceLocation
  | HBS_UndefinedLiteral SourceLocation
  | HBS_NullLiteral SourceLocation
and HBS_Hash = HBS_Hash "HBS_HashPair list" SourceLocation
and HBS_HashPair = HBS_HashPair string HBS_Expression SourceLocation

subsection \<open>The unified tree (output)\<close>

text \<open>
  The head of a path. \<^verbatim>\<open>VarHead\<close> takes its name from \<^verbatim>\<open>parts.shift()\<close>, which is
  \<^verbatim>\<open>undefined\<close> on an empty array: \<open>None\<close>.
\<close>

datatype PathHead =
    ThisHead SourceLocation
  | AtHead string SourceLocation
  | VarHead "string option" SourceLocation

text \<open>
  Modelled from the spec: the constructor \<^verbatim>\<open>PathExpressionImplV1\<close> is not part of the sources
  at hand; a path node is the original text, the head, the tail and the span it is given.
  The tail of a path is a JavaScript value that is an array or \<^verbatim>\<open>null\<close>: \<open>Some xs\<close> is the
  array \<open>xs\<close>, \<open>None\<close> is \<^verbatim>\<open>null\<close>. The literal nodes are the copies that \<^verbatim>\<open>b.literal\<close>
  makes, and a hash and its pairs what \<^verbatim>\<open>b.hash\<close> and \<^verbatim>\<open>b.pair\<close> make.
\<close>

datatype ASTv1_Expression =
    ASTv1_PathExpression (path_original: string) (path_head: PathHead)
      (path_tail: "string list option") (path_loc: SourceSpan)
  | ASTv1_SubExpression ASTv1_Expression "ASTv1_Expression list" ASTv1_Hash SourceSpan
  | ASTv1_StringLiteral string SourceLocation
  | ASTv1_BooleanLiteral bool SourceLocation
  | ASTv1_NumberLiteral js_number SourceLocation
  | ASTv1_UndefinedLiteral SourceLocation
  | ASTv1_NullLiteral SourceLocation
and ASTv1_Hash = ASTv1_Hash (hash_pairs: "ASTv1_HashPair list") (hash_loc: SourceSpan)
and ASTv1_HashPair = ASTv1_HashPair string ASTv1_Expression SourceSpan

fun expr_loc :: "ASTv1_Expression \<Rightarrow> SourceSpan" where
  "expr_loc (ASTv1_PathExpression original h t l) = l"
| "expr_loc (ASTv1_SubExpression p ps h l) = l"
| "expr_loc (ASTv1_StringLiteral v l) = l"
| "expr_loc (ASTv1_BooleanLiteral v l) = l"
| "expr_loc (ASTv1_NumberLiteral v l) = l"
| "expr_loc (ASTv1_UndefinedLiteral l) = l"
| "expr_loc (ASTv1_NullLiteral l) = l"

fun hbs_expr_loc :: "HBS_Expression \<Rightarrow> SourceLocation" where
  "hbs_expr_loc (HBS_PathExpression d ps original l) = l"
| "hbs_expr_loc (HBS_SubExpression p ps h l) = l"
| "hbs_expr_loc (HBS_StringLiteral v l) = l"
| "hbs_expr_loc (HBS_BooleanLiteral v l) = l"
| "hbs_expr_loc (HBS_NumberLiteral v l) = l"
| "hbs_expr_loc (HBS_UndefinedLiteral l) = l"
| "hbs_expr_loc (HBS_NullLiteral l) = l"

text \<open>
  Modelled from the spec: \<^verbatim>\<open>isHBSLiteral\<close> is not part of the sources at hand. The call
  target is a bare literal when the node is one of the five literal kinds.
\<close>

fun isHBSLiteral :: "HBS_Expression \<Rightarrow> bool" where
  "isHBSLiteral (HBS_PathExpression d ps original l) = False"
| "isHBSLiteral (HBS_SubExpression p ps h l) = False"
| "isHBSLiteral _ = True"

subsection \<open>Path and head resolution\<close>

text \<open>The segments after the first step of \<^verbatim>\<open>PathExpression\<close>: joined when the text has a slash.\<close>

definition path_parts :: "string \<Rightarrow> string list \<Rightarrow> string list" where
  "path_parts original ps =
     (if CHR ''/'' \<in> set original then [join ''/'' ps] else ps)"

definition head_loc :: "SourceLocation \<Rightarrow> nat \<Rightarrow> SourceLocation" where
  "head_loc l n =
     \<lparr>loc_start = loc_start l,
      loc_end = \<lparr>line = line (loc_start l), column = column (loc_start l) + n\<rparr>\<rparr>"

definition at_path_message :: string where
  "at_path_message =
     ''Attempted to parse a path expression, but it was not valid. '' @
     ''Paths beginning with @ must start with a-z.''"

definition PathExpression ::
  "bool \<Rightarrow> string list \<Rightarrow> string \<Rightarrow> SourceLocation \<Rightarrow> error + ASTv1_Expression" where
  "PathExpression data_flag ps original l =
     (let parts = path_parts original ps;
          thisHead = matches_this original
      in if thisHead then
           Inr (ASTv1_PathExpression original (ThisHead (head_loc l 4)) (Some parts) (spanFor l))
         else if data_flag then
           (case parts of
              [] \<Rightarrow> Inl (SyntaxError at_path_message (spanFor l))
            | h # rest \<Rightarrow>
                Inr (ASTv1_PathExpression original
                       (AtHead (CHR ''@'' # h) (head_loc l (length h + 1)))
                       (Some rest) (spanFor l)))
         else
           (case parts of
              [] \<Rightarrow>
                Inr (ASTv1_PathExpression original (VarHead None (head_loc l 0))
                       (Some []) (spanFor l))
            | h # rest \<Rightarrow>
                Inr (ASTv1_PathExpression original (VarHead (Some h) (head_loc l (length h)))
                       (Some rest) (spanFor l))))"

text \<open>
  The span a missing hash is placed after: that of the last parameter, or of the call target
  when there is no parameter.
\<close>

definition call_end :: "ASTv1_Expression \<Rightarrow> ASTv1_Expression list \<Rightarrow> SourceSpan" where
  "call_end path params = (if length params > 0 then expr_loc (last params) else expr_loc path)"

text \<open>
  Modelled from the spec: \<^verbatim>\<open>Parser.acceptNode\<close> is not part of the sources at hand; it calls
  the visitor named by the kind of the node, as \<^verbatim>\<open>acceptCallNodes\<close> does for the call target.
  \<open>acceptExpression\<close> is that dispatch on the expressions, with the visitors
  \<^verbatim>\<open>SubExpression\<close> and the five literals written in place. The hash of a call is the
  translated hash when the syntax tree has one, and otherwise an empty hash collapsed to the
  end of \<open>call_end\<close>.
\<close>

function (sequential) acceptExpression :: "HBS_Expression \<Rightarrow> error + ASTv1_Expression"
  and acceptExpressions :: "HBS_Expression list \<Rightarrow> error + ASTv1_Expression list"
  and acceptCallNodes ::
    "HBS_Expression \<Rightarrow> HBS_Expression list \<Rightarrow> HBS_Hash option \<Rightarrow>
     error + (ASTv1_Expression \<times> ASTv1_Expression list \<times> ASTv1_Hash)"
  and Hash :: "HBS_Hash \<Rightarrow> error + ASTv1_Hash"
  and Hash_pairs :: "HBS_HashPair list \<Rightarrow> error + ASTv1_HashPair list"
where
  "acceptExpression (HBS_PathExpression d ps original l) = PathExpression d ps original l"
| "acceptExpression (HBS_SubExpression p ps h l) =
     (case acceptCallNodes p ps h of
        Inl e \<Rightarrow> Inl e
      | Inr (path, params, hash) \<Rightarrow> Inr (ASTv1_SubExpression path params hash (spanFor l)))"
| "acceptCallNodes p ps h =
     (case acceptExpression p of
        Inl e \<Rightarrow> Inl e
      | Inr path \<Rightarrow>
          (case acceptExpressions ps of
             Inl e \<Rightarrow> Inl e
           | Inr params \<Rightarrow>
               (case h of
                  Some hh \<Rightarrow>
                    (case Hash hh of
                       Inl e \<Rightarrow> Inl e
                     | Inr hash \<Rightarrow> Inr (path, params, hash))
                | None \<Rightarrow>
                    Inr (path, params,
                         ASTv1_Hash [] (collapse_end (spanFor (call_end path params)))))))"
| "acceptExpression (HBS_StringLiteral v l) = Inr (ASTv1_StringLiteral v l)"
| "acceptExpression (HBS_BooleanLiteral v l) = Inr (ASTv1_BooleanLiteral v l)"
| "acceptExpression (HBS_NumberLiteral v l) = Inr (ASTv1_NumberLiteral v l)"
| "acceptExpression (HBS_UndefinedLiteral l) = Inr (ASTv1_UndefinedLiteral l)"
| "acceptExpression (HBS_NullLiteral l) = Inr (ASTv1_NullLiteral l)"
| "acceptExpressions [] = Inr []"
| "acceptExpressions (x # xs) =
     (case acceptExpression x of
        Inl e \<Rightarrow> Inl e
      | Inr y \<Rightarrow> (case acceptExpressions xs of Inl e \<Rightarrow> Inl e | Inr ys \<Rightarrow> Inr (y # ys)))"
| "Hash (HBS_Hash pairs l) =
     (case Hash_pairs pairs of
        Inl e \<Rightarrow> Inl e
      | Inr out \<Rightarrow> Inr (ASTv1_Hash out (spanFor l)))"
| "Hash_pairs [] = Inr []"
| "Hash_pairs (HBS_HashPair key v l # rest) =
     (case acceptExpression v of
        Inl e \<Rightarrow> Inl e
      | Inr value \<Rightarrow>
          (case Hash_pairs rest of
             Inl e \<Rightarrow> Inl e
           | Inr out \<Rightarrow> Inr (ASTv1_HashPair key value (spanFor l) # out)))"
  by pat_completeness auto
termination
  by (relation "measure (\<lambda>x. case x of
         Inl (Inl e) \<Rightarrow> 2 * size e
       | Inl (Inr es) \<Rightarrow> 2 * size_list size es
       | Inr (Inl (p, ps, h)) \<Rightarrow> 2 * (size p + size_list size ps + size_option size h) + 1
       | Inr (Inr (Inl h)) \<Rightarrow> 2 * size h
       | Inr (Inr (Inr ps)) \<Rightarrow> 2 * size_list size ps)") auto

declare acceptCallNodes.simps [simp del]

section \<open>The translator: statements\<close>

subsection \<open>Syntax tree of statements (input)\<close>

datatype HBS_Statement =
    HBS_MustacheStatement HBS_Expression "HBS_Expression list" "HBS_Hash option" bool
      StripFlags SourceLocation
  | HBS_Decorator HBS_Expression "HBS_Expression list" "HBS_Hash option" bool
      StripFlags SourceLocation
  | HBS_BlockStatement HBS_Expression "HBS_Expression list" "HBS_Hash option"
      HBS_Program "HBS_Program option" StripFlags StripFlags StripFlags SourceLocation
  | HBS_DecoratorBlock HBS_Expression "HBS_Expression list" "HBS_Hash option"
      HBS_Program "HBS_Program option" StripFlags StripFlags StripFlags SourceLocation
  | HBS_PartialStatement HBS_Expression "HBS_Expression list" "HBS_Hash option"
      StripFlags string SourceLocation
  | HBS_PartialBlockStatement HBS_Expression "HBS_Expression list" "HBS_Hash option"
      HBS_Program StripFlags StripFlags SourceLocation
  | HBS_ContentStatement (content_value: string) (content_original: string)
      (content_loc: SourceLocation)
  | HBS_CommentStatement string SourceLocation
and HBS_Program =
    HBS_Program (program_body: "HBS_Statement list") (program_blockParams: "string list")
      (program_chained: bool) (program_loc: "SourceLocation option")

subsection \<open>Nodes of the unified tree (output)\<close>

text \<open>
  Modelled from the spec: the node constructors of \<^verbatim>\<open>parser-builders\<close> and the node types
  of the unified tree are not part of the sources at hand; each builder makes the node of
  the kind named, with the fields it is given. \<open>Template\<close>, \<open>Block\<close> and \<open>ElementNode\<close> are
  the nodes that stand on the element stack; the source compares them by identity, so each
  carries the number of the object it is. \<open>ContentMustache\<close> is the value-only mustache of
  the spec's data model.
\<close>

datatype Node =
    ASTv1_Template nat "Node list" "string list" SourceSpan
  | ASTv1_Block nat "Node list" "string list" bool SourceSpan
  | ASTv1_ElementNode nat string "Node list" "Node list" "Node list" "Node list" SourceSpan
  | ASTv1_AttrNode string "Node list" SourceSpan
  | ASTv1_TextNode string SourceSpan
  | ASTv1_CommentStatement string SourceSpan
  | ASTv1_MustacheCommentStatement string SourceSpan
  | ASTv1_MustacheStatement ASTv1_Expression "ASTv1_Expression list" ASTv1_Hash bool
      SourceSpan StripFlags
  | ASTv1_DecoratorStatement ASTv1_Expression "ASTv1_Expression list" ASTv1_Hash bool
      SourceSpan StripFlags
  | ASTv1_ContentMustache ASTv1_Expression SourceSpan
  | ASTv1_BlockStatement ASTv1_Expression "ASTv1_Expression list" ASTv1_Hash Node
      "Node option" SourceSpan StripFlags StripFlags StripFlags
  | ASTv1_DecoratorBlock ASTv1_Expression "ASTv1_Expression list" ASTv1_Hash Node
      "Node option" SourceSpan StripFlags StripFlags StripFlags
  | ASTv1_PartialStatement ASTv1_Expression "ASTv1_Expression list" ASTv1_Hash StripFlags
      string SourceSpan
  | ASTv1_PartialBlockStatement ASTv1_Expression "ASTv1_Expression list" ASTv1_Hash Node
      StripFlags StripFlags SourceSpan

text \<open>
  The identity of a node that can stand on the element stack: its type and the number of
  the object. Two nodes are the same object (\<^verbatim>\<open>===\<close>) when they have the same identity; an
  element is never the same object as a template or a block.
\<close>

fun node_id :: "Node \<Rightarrow> (string \<times> nat) option" where
  "node_id (ASTv1_Template i body bp l) = Some (''Template'', i)"
| "node_id (ASTv1_Block i body bp ch l) = Some (''Block'', i)"
| "node_id (ASTv1_ElementNode i t attrs mods cs children l) = Some (''ElementNode'', i)"
| "node_id _ = None"

fun node_loc :: "Node \<Rightarrow> SourceSpan" where
  "node_loc (ASTv1_Template i body bp l) = l"
| "node_loc (ASTv1_Block i body bp ch l) = l"
| "node_loc (ASTv1_ElementNode i t attrs mods cs children l) = l"
| "node_loc (ASTv1_AttrNode n v l) = l"
| "node_loc (ASTv1_TextNode v l) = l"
| "node_loc (ASTv1_CommentStatement v l) = l"
| "node_loc (ASTv1_MustacheCommentStatement v l) = l"
| "node_loc (ASTv1_MustacheStatement p ps h t l st) = l"
| "node_loc (ASTv1_DecoratorStatement p ps h t l st) = l"
| "node_loc (ASTv1_ContentMustache v l) = l"
| "node_loc (ASTv1_BlockStatement p ps h b i l s1 s2 s3) = l"
| "node_loc (ASTv1_DecoratorBlock p ps h b i l s1 s2 s3) = l"
| "node_loc (ASTv1_PartialStatement p ps h st ind l) = l"
| "node_loc (ASTv1_PartialBlockStatement p ps h b s1 s2 l) = l"

text \<open>
  \<^verbatim>\<open>`${elementNode.tag}`\<close>: the tag of an element; a node with no \<^verbatim>\<open>tag\<close> property prints
  as \<open>undefined\<close>.
\<close>

fun tag_text :: "Node \<Rightarrow> string" where
  "tag_text (ASTv1_ElementNode i t attrs mods cs children l) = t"
| "tag_text _ = ''undefined''"

text \<open>The parts of a call node that a call's hash belongs to.\<close>

fun node_hash :: "Node \<Rightarrow> ASTv1_Hash option" where
  "node_hash (ASTv1_MustacheStatement p ps h t l st) = Some h"
| "node_hash (ASTv1_DecoratorStatement p ps h t l st) = Some h"
| "node_hash (ASTv1_BlockStatement p ps h b i l s1 s2 s3) = Some h"
| "node_hash (ASTv1_DecoratorBlock p ps h b i l s1 s2 s3) = Some h"
| "node_hash (ASTv1_PartialStatement p ps h st ind l) = Some h"
| "node_hash (ASTv1_PartialBlockStatement p ps h b s1 s2 l) = Some h"
| "node_hash _ = None"

fun node_params :: "Node \<Rightarrow> ASTv1_Expression list" where
  "node_params (ASTv1_MustacheStatement p ps h t l st) = ps"
| "node_params (ASTv1_DecoratorStatement p ps h t l st) = ps"
| "node_params (ASTv1_BlockStatement p ps h b i l s1 s2 s3) = ps"
| "node_params (ASTv1_DecoratorBlock p ps h b i l s1 s2 s3) = ps"
| "node_params (ASTv1_PartialStatement p ps h st ind l) = ps"
| "node_params (ASTv1_PartialBlockStatement p ps h b s1 s2 l) = ps"
| "node_params _ = []"

fun node_path :: "Node \<Rightarrow> ASTv1_Expression option" where
  "node_path (ASTv1_MustacheStatement p ps h t l st) = Some p"
| "node_path (ASTv1_DecoratorStatement p ps h t l st) = Some p"
| "node_path (ASTv1_BlockStatement p ps h b i l s1 s2 s3) = Some p"
| "node_path (ASTv1_DecoratorBlock p ps h b i l s1 s2 s3) = Some p"
| "node_path (ASTv1_PartialStatement p ps h st ind l) = Some p"
| "node_path (ASTv1_PartialBlockStatement p ps h b s1 s2 l) = Some p"
| "node_path _ = None"

subsection \<open>The parser's state\<close>

text \<open>
  The states of the external tokenizer (\<^verbatim>\<open>TokenizerState\<close> of simple-html-tokenizer); the
  source names thirteen of them, the others fall under the \<^verbatim>\<open>default\<close> branches.
\<close>

datatype TokenizerState =
    beforeData | data | tagOpen | endTagOpen | tagName | endTagName
  | beforeAttributeName | attributeName | afterAttributeName | beforeAttributeValue
  | attributeValueDoubleQuoted | attributeValueSingleQuoted | attributeValueUnquoted
  | afterAttributeValueQuoted | selfClosingStartTag | markupDeclarationOpen
  | commentStart | commentStartDash | comment | commentEndDash | commentEnd

fun state_name :: "TokenizerState \<Rightarrow> string" where
  "state_name beforeData = ''beforeData''"
| "state_name data = ''data''"
| "state_name tagOpen = ''tagOpen''"
| "state_name endTagOpen = ''endTagOpen''"
| "state_name tagName = ''tagName''"
| "state_name endTagName = ''endTagName''"
| "state_name beforeAttributeName = ''beforeAttributeName''"
| "state_name attributeName = ''attributeName''"
| "state_name afterAttributeName = ''afterAttributeName''"
| "state_name beforeAttributeValue = ''beforeAttributeValue''"
| "state_name attributeValueDoubleQuoted = ''attributeValueDoubleQuoted''"
| "state_name attributeValueSingleQuoted = ''attributeValueSingleQuoted''"
| "state_name attributeValueUnquoted = ''attributeValueUnquoted''"
| "state_name afterAttributeValueQuoted = ''afterAttributeValueQuoted''"
| "state_name selfClosingStartTag = ''selfClosingStartTag''"
| "state_name markupDeclarationOpen = ''markupDeclarationOpen''"
| "state_name commentStart = ''commentStart''"
| "state_name commentStartDash = ''commentStartDash''"
| "state_name comment = ''comment''"
| "state_name commentEndDash = ''commentEndDash''"
| "state_name commentEnd = ''commentEnd''"

text \<open>
  Modelled from the spec: the getters \<^verbatim>\<open>currentStartTag\<close> and \<^verbatim>\<open>currentAttr\<close> of the parser
  are not part of the sources at hand. They are the start tag and the attribute under
  construction: a tag has its modifiers and its comments, an attribute the parts of its
  value, the pending text part and the flag that says its value is dynamic.
\<close>

record StartTag =
  tag_name :: string
  tag_attributes :: "Node list"
  modifiers :: "Node list"
  comments :: "Node list"

record Attribute =
  attr_name :: string
  parts :: "Node list"
  currentPart :: "Node option"
  isDynamic :: bool

text \<open>
  The state that the visitors read and write: the tokenizer's lexical state and cursor, the
  element stack (its top is the head of the list), the start tag and the attribute under
  construction, and the number of the next object. What the external tokenizer and the
  tokenizer's event handlers keep beyond that lives in the record's extension.
\<close>

record Parser =
  tokenizer_state :: TokenizerState
  tokenizer_line :: nat
  tokenizer_column :: nat
  elementStack :: "Node list"
  currentStartTag :: StartTag
  currentAttr :: Attribute
  next_id :: nat

text \<open>
  The operations the source calls and does not define: the three abstract methods of
  \<^verbatim>\<open>HandlebarsNodeVisitors\<close>, the tokenizer's \<^verbatim>\<open>tokenizePart\<close> and \<^verbatim>\<open>flushData\<close> (which call
  back into the event handlers and so change the whole state), and \<^verbatim>\<open>sourceForNode\<close>. They
  are parameters of the model; each may raise.
\<close>

record 'p Hooks =
  appendToCommentData :: "string \<Rightarrow> 'p \<Rightarrow> error + 'p"
  beginAttributeValue :: "bool \<Rightarrow> 'p \<Rightarrow> error + 'p"
  finishAttributeValue :: "'p \<Rightarrow> error + 'p"
  tokenizePart :: "string \<Rightarrow> 'p \<Rightarrow> error + 'p"
  flushData :: "'p \<Rightarrow> error + 'p"
  sourceForNode :: "SourceLocation \<Rightarrow> string"

definition transitionTo :: "TokenizerState \<Rightarrow> 'x Parser_scheme \<Rightarrow> 'x Parser_scheme" where
  "transitionTo st s = s\<lparr>tokenizer_state := st\<rparr>"

definition isTopLevel :: "'x Parser_scheme \<Rightarrow> bool" where
  "isTopLevel s = (length (elementStack s) = 0)"

text \<open>
  Modelled from the spec: \<^verbatim>\<open>currentElement\<close> and \<^verbatim>\<open>appendChild\<close> are not part of the sources
  at hand. The current element is the top of the element stack; a child is appended to the
  body of a template or block and to the children of an element.
\<close>

fun appendChild :: "Node \<Rightarrow> Node \<Rightarrow> error + Node" where
  "appendChild (ASTv1_Template i body bp l) c = Inr (ASTv1_Template i (body @ [c]) bp l)"
| "appendChild (ASTv1_Block i body bp ch l) c = Inr (ASTv1_Block i (body @ [c]) bp ch l)"
| "appendChild (ASTv1_ElementNode i t attrs mods cs children l) c =
     Inr (ASTv1_ElementNode i t attrs mods cs (children @ [c]) l)"
| "appendChild _ c = Inl TypeError"

definition appendChild_currentElement ::
  "Node \<Rightarrow> 'x Parser_scheme \<Rightarrow> error + 'x Parser_scheme" where
  "appendChild_currentElement node s =
     (case elementStack s of
        [] \<Rightarrow> Inl TypeError
      | parent # rest \<Rightarrow>
          (case appendChild parent node of
             Inl e \<Rightarrow> Inl e
           | Inr parent' \<Rightarrow> Inr (s\<lparr>elementStack := parent' # rest\<rparr>)))"

definition push_modifier :: "Node \<Rightarrow> 'x Parser_scheme \<Rightarrow> 'x Parser_scheme" where
  "push_modifier node s =
     s\<lparr>currentStartTag := (currentStartTag s)\<lparr>modifiers := modifiers (currentStartTag s) @ [node]\<rparr>\<rparr>"

definition push_comment :: "Node \<Rightarrow> 'x Parser_scheme \<Rightarrow> 'x Parser_scheme" where
  "push_comment node s =
     s\<lparr>currentStartTag := (currentStartTag s)\<lparr>comments := comments (currentStartTag s) @ [node]\<rparr>\<rparr>"

subsection \<open>Attribute value parts\<close>

definition startTextPart :: "'x Parser_scheme \<Rightarrow> 'x Parser_scheme" where
  "startTextPart s = s\<lparr>currentAttr := (currentAttr s)\<lparr>currentPart := None\<rparr>\<rparr>"

definition finalizeTextPart :: "'x Parser_scheme \<Rightarrow> 'x Parser_scheme" where
  "finalizeTextPart s =
     (case currentPart (currentAttr s) of
        None \<Rightarrow> s
      | Some text \<Rightarrow>
          startTextPart
            (s\<lparr>currentAttr := (currentAttr s)\<lparr>parts := parts (currentAttr s) @ [text]\<rparr>\<rparr>))"

definition appendDynamicAttributeValuePart :: "Node \<Rightarrow> 'x Parser_scheme \<Rightarrow> 'x Parser_scheme" where
  "appendDynamicAttributeValuePart part s =
     (let s1 = finalizeTextPart s
      in s1\<lparr>currentAttr :=
             (currentAttr s1)\<lparr>isDynamic := True, parts := parts (currentAttr s1) @ [part]\<rparr>\<rparr>)"

subsection \<open>Context-sensitive injection\<close>

definition tagname_message :: string where
  "tagname_message = ''Cannot use mustaches in an elements tagname''"

definition inject_as_modifier ::
  "('x Parser_scheme) Hooks \<Rightarrow> Node \<Rightarrow> 'x Parser_scheme \<Rightarrow> error + 'x Parser_scheme" where
  "inject_as_modifier h node s =
     (case beginAttributeValue h False s of
        Inl e \<Rightarrow> Inl e
      | Inr s1 \<Rightarrow>
          (case finishAttributeValue h s1 of
             Inl e \<Rightarrow> Inl e
           | Inr s2 \<Rightarrow> Inr (transitionTo beforeAttributeName (push_modifier node s2))))"

definition inject_as_value ::
  "('x Parser_scheme) Hooks \<Rightarrow> Node \<Rightarrow> 'x Parser_scheme \<Rightarrow> error + 'x Parser_scheme" where
  "inject_as_value h node s =
     (case beginAttributeValue h False s of
        Inl e \<Rightarrow> Inl e
      | Inr s1 \<Rightarrow>
          Inr (transitionTo attributeValueUnquoted (appendDynamicAttributeValuePart node s1)))"

definition injectStatement ::
  "('x Parser_scheme) Hooks \<Rightarrow> Node \<Rightarrow> 'x Parser_scheme \<Rightarrow> error + 'x Parser_scheme" where
  "injectStatement h node s =
     (case tokenizer_state s of
        tagOpen \<Rightarrow> Inl (SyntaxError tagname_message (node_loc node))
      | tagName \<Rightarrow> Inl (SyntaxError tagname_message (node_loc node))
      | beforeAttributeName \<Rightarrow> Inr (push_modifier node s)
      | attributeName \<Rightarrow> inject_as_modifier h node s
      | afterAttributeName \<Rightarrow> inject_as_modifier h node s
      | afterAttributeValueQuoted \<Rightarrow>
          Inr (transitionTo beforeAttributeName (push_modifier node s))
      | beforeAttributeValue \<Rightarrow> inject_as_value h node s
      | attributeValueDoubleQuoted \<Rightarrow> Inr (appendDynamicAttributeValuePart node s)
      | attributeValueSingleQuoted \<Rightarrow> Inr (appendDynamicAttributeValuePart node s)
      | attributeValueUnquoted \<Rightarrow> Inr (appendDynamicAttributeValuePart node s)
      | _ \<Rightarrow> appendChild_currentElement node s)"

subsection \<open>Content: the right-stripped offsets\<close>

record Offsets =
  lines :: nat
  columns :: nat

definition calculateRightStrippedOffsets :: "string \<Rightarrow> string \<Rightarrow> Offsets" where
  "calculateRightStrippedOffsets original v =
     (if v = [] then
        \<lparr>lines = length (split_char newline original) - 1, columns = 0\<rparr>
      else
        (let difference = hd (js_split v original);
             ls = split_char newline difference;
             lineCount = length ls - 1
         in \<lparr>lines = lineCount, columns = length (ls ! lineCount)\<rparr>))"

definition updateTokenizerLocation ::
  "string \<Rightarrow> string \<Rightarrow> SourceLocation \<Rightarrow> 'x Parser_scheme \<Rightarrow> 'x Parser_scheme" where
  "updateTokenizerLocation v original l s =
     (let offsets = calculateRightStrippedOffsets original v;
          line1 = line (loc_start l) + lines offsets;
          column1 = (if lines offsets \<noteq> 0 then columns offsets
                     else column (loc_start l) + columns offsets)
      in s\<lparr>tokenizer_line := line1, tokenizer_column := column1\<rparr>)"

definition ContentStatement ::
  "('x Parser_scheme) Hooks \<Rightarrow> string \<Rightarrow> string \<Rightarrow> SourceLocation \<Rightarrow> 'x Parser_scheme \<Rightarrow>
   error + 'x Parser_scheme" where
  "ContentStatement h v original l s =
     (case tokenizePart h v (updateTokenizerLocation v original l s) of
        Inl e \<Rightarrow> Inl e
      | Inr s1 \<Rightarrow> flushData h s1)"

subsection \<open>Comments, mustaches and partials\<close>

definition comment_state_message :: "TokenizerState \<Rightarrow> string" where
  "comment_state_message st =
     ''Using a Handlebars comment when in the `'' @ state_name st @
     ''` state is not supported''"

definition CommentStatement ::
  "('x Parser_scheme) Hooks \<Rightarrow> string \<Rightarrow> SourceLocation \<Rightarrow> 'x Parser_scheme \<Rightarrow>
   error + (Node option \<times> 'x Parser_scheme)" where
  "CommentStatement h v l s =
     (if tokenizer_state s = comment then
        (case appendToCommentData h (sourceForNode h l) s of
           Inl e \<Rightarrow> Inl e
         | Inr s1 \<Rightarrow> Inr (None, s1))
      else
        (let c = ASTv1_MustacheCommentStatement v (spanFor l)
         in case tokenizer_state s of
              beforeAttributeName \<Rightarrow> Inr (Some c, push_comment c s)
            | afterAttributeName \<Rightarrow> Inr (Some c, push_comment c s)
            | beforeData \<Rightarrow>
                (case appendChild_currentElement c s of
                   Inl e \<Rightarrow> Inl e
                 | Inr s1 \<Rightarrow> Inr (Some c, s1))
            | data \<Rightarrow>
                (case appendChild_currentElement c s of
                   Inl e \<Rightarrow> Inl e
                 | Inr s1 \<Rightarrow> Inr (Some c, s1))
            | _ \<Rightarrow> Inl (SyntaxError (comment_state_message (tokenizer_state s)) (spanFor l))))"

text \<open>
  \<^verbatim>\<open>Decorator\<close> runs \<^verbatim>\<open>MustacheStatement\<close> and then sets the type of the node it returned,
  which is the very object that was spliced into the tree; nothing reads the type in
  between. The model therefore builds the node with its final type: \<open>decorator\<close> says which.
\<close>

definition mustache_node ::
  "bool \<Rightarrow> ASTv1_Expression \<Rightarrow> ASTv1_Expression list \<Rightarrow> ASTv1_Hash \<Rightarrow> bool \<Rightarrow> SourceSpan \<Rightarrow>
   StripFlags \<Rightarrow> Node" where
  "mustache_node decorator path params hash trusting l strip =
     (if decorator then ASTv1_DecoratorStatement path params hash trusting l strip
      else ASTv1_MustacheStatement path params hash trusting l strip)"

definition block_node ::
  "bool \<Rightarrow> ASTv1_Expression \<Rightarrow> ASTv1_Expression list \<Rightarrow> ASTv1_Hash \<Rightarrow> Node \<Rightarrow> Node option \<Rightarrow>
   SourceSpan \<Rightarrow> StripFlags \<Rightarrow> StripFlags \<Rightarrow> StripFlags \<Rightarrow> Node" where
  "block_node decorator path params hash defaultBlock elseBlock l s1 s2 s3 =
     (if decorator then ASTv1_DecoratorBlock path params hash defaultBlock elseBlock l s1 s2 s3
      else ASTv1_BlockStatement path params hash defaultBlock elseBlock l s1 s2 s3)"

definition build_mustache ::
  "bool \<Rightarrow> HBS_Expression \<Rightarrow> HBS_Expression list \<Rightarrow> HBS_Hash option \<Rightarrow> bool \<Rightarrow> StripFlags \<Rightarrow>
   SourceLocation \<Rightarrow> error + Node" where
  "build_mustache decorator rawPath rawParams rawHash escaped strip l =
     (if isHBSLiteral rawPath then
        (case acceptExpression rawPath of
           Inl e \<Rightarrow> Inl e
         | Inr lit \<Rightarrow>
             Inr (mustache_node decorator lit []
                    (ASTv1_Hash [] (collapse_end (spanFor (hbs_expr_loc rawPath))))
                    (\<not> escaped) (spanFor l) strip))
      else
        (case acceptCallNodes rawPath rawParams rawHash of
           Inl e \<Rightarrow> Inl e
         | Inr (path, params, hash) \<Rightarrow>
             Inr (mustache_node decorator path params hash (\<not> escaped) (spanFor l) strip)))"

definition MustacheStatement_as ::
  "bool \<Rightarrow> ('x Parser_scheme) Hooks \<Rightarrow> HBS_Expression \<Rightarrow> HBS_Expression list \<Rightarrow>
   HBS_Hash option \<Rightarrow> bool \<Rightarrow> StripFlags \<Rightarrow> SourceLocation \<Rightarrow> 'x Parser_scheme \<Rightarrow>
   error + (Node option \<times> 'x Parser_scheme)" where
  "MustacheStatement_as decorator h rawPath rawParams rawHash escaped strip l s =
     (if tokenizer_state s = comment then
        (case appendToCommentData h (sourceForNode h l) s of
           Inl e \<Rightarrow> Inl e
         | Inr s1 \<Rightarrow> Inr (None, s1))
      else
        (case build_mustache decorator rawPath rawParams rawHash escaped strip l of
           Inl e \<Rightarrow> Inl e
         | Inr mustache \<Rightarrow>
             (case injectStatement h mustache s of
                Inl e \<Rightarrow> Inl e
              | Inr s1 \<Rightarrow> Inr (Some mustache, s1))))"

definition MustacheStatement ::
  "('x Parser_scheme) Hooks \<Rightarrow> HBS_Expression \<Rightarrow> HBS_Expression list \<Rightarrow>
   HBS_Hash option \<Rightarrow> bool \<Rightarrow> StripFlags \<Rightarrow> SourceLocation \<Rightarrow> 'x Parser_scheme \<Rightarrow>
   error + (Node option \<times> 'x Parser_scheme)" where
  "MustacheStatement = MustacheStatement_as False"

definition Decorator ::
  "('x Parser_scheme) Hooks \<Rightarrow> HBS_Expression \<Rightarrow> HBS_Expression list \<Rightarrow>
   HBS_Hash option \<Rightarrow> bool \<Rightarrow> StripFlags \<Rightarrow> SourceLocation \<Rightarrow> 'x Parser_scheme \<Rightarrow>
   error + (Node option \<times> 'x Parser_scheme)" where
  "Decorator = MustacheStatement_as True"

definition PartialStatement ::
  "('x Parser_scheme) Hooks \<Rightarrow> HBS_Expression \<Rightarrow> HBS_Expression list \<Rightarrow>
   HBS_Hash option \<Rightarrow> StripFlags \<Rightarrow> string \<Rightarrow> SourceLocation \<Rightarrow> 'x Parser_scheme \<Rightarrow>
   error + (Node option \<times> 'x Parser_scheme)" where
  "PartialStatement h rawName rawParams rawHash strip indent l s =
     (case acceptCallNodes rawName rawParams rawHash of
        Inl e \<Rightarrow> Inl e
      | Inr (name, params, hash) \<Rightarrow>
          (let node = ASTv1_PartialStatement name params hash strip indent (spanFor l)
           in case injectStatement h node s of
                Inl e \<Rightarrow> Inl e
              | Inr s1 \<Rightarrow> Inr (Some node, s1)))"

subsection \<open>Programs and blocks\<close>

definition unclosed_message :: "Node \<Rightarrow> string" where
  "unclosed_message elementNode = ''Unclosed element `'' @ tag_text elementNode @ ''`''"

definition block_state_message :: string where
  "block_state_message = ''A block may only be used inside an HTML element or another block.''"

text \<open>
  The node a \<^verbatim>\<open>Program\<close> builds before it visits the body: a template at top level, a block
  otherwise. The object is new; it takes the next number.
\<close>

definition program_node ::
  "'x Parser_scheme \<Rightarrow> string list \<Rightarrow> bool \<Rightarrow> SourceLocation \<Rightarrow> Node" where
  "program_node s blockParams chained l =
     (if isTopLevel s then ASTv1_Template (next_id s) [] blockParams (spanFor l)
      else ASTv1_Block (next_id s) [] blockParams chained (spanFor l))"

definition push_element :: "Node \<Rightarrow> 'x Parser_scheme \<Rightarrow> 'x Parser_scheme" where
  "push_element node s = s\<lparr>elementStack := node # elementStack s, next_id := Suc (next_id s)\<rparr>"

text \<open>
  The check after the body: the node popped must be the node pushed. The object pushed has
  been filled by the visits of the children, so the node returned is the one popped.
\<close>

definition pop_and_check ::
  "Node \<Rightarrow> 'x Parser_scheme \<Rightarrow> error + (Node \<times> 'x Parser_scheme)" where
  "pop_and_check node s =
     (case elementStack s of
        [] \<Rightarrow> Inl TypeError
      | poppedNode # rest \<Rightarrow>
          (if node_id poppedNode \<noteq> node_id node then
             Inl (SyntaxError (unclosed_message poppedNode) (node_loc poppedNode))
           else Inr (poppedNode, s\<lparr>elementStack := rest\<rparr>)))"

text \<open>
  \<^verbatim>\<open>return this.elementStack.pop()\<close>, for an empty body: no check. The stack has just been
  pushed, so it is not empty there.
\<close>

definition pop_element :: "'x Parser_scheme \<Rightarrow> error + (Node \<times> 'x Parser_scheme)" where
  "pop_element s =
     (case elementStack s of
        [] \<Rightarrow> Inl TypeError
      | poppedNode # rest \<Rightarrow> Inr (poppedNode, s\<lparr>elementStack := rest\<rparr>))"

text \<open>The backfill of a block body that has no location.\<close>

fun backfill :: "HBS_Program \<Rightarrow> HBS_Program" where
  "backfill (HBS_Program body bp ch None) = HBS_Program body bp ch (Some NON_EXISTENT_LOCATION)"
| "backfill (HBS_Program body bp ch (Some l)) = HBS_Program body bp ch (Some l)"

text \<open>
  The visitors of the statements. \<^verbatim>\<open>Program\<close> pushes its node, visits the body in order and
  pops; \<open>acceptNodes\<close> is its \<^verbatim>\<open>for\<close> loop and \<open>acceptNode\<close> the dispatch by the kind of the
  statement. A program that still has no location when \<^verbatim>\<open>spanFor\<close> is called on it is a
  dereference of a missing location (modelled from the spec, which gives that as the reason
  of the backfill): \<open>TypeError\<close>. \<^verbatim>\<open>DecoratorBlock\<close> is \<^verbatim>\<open>BlockStatement\<close> with the type of the
  node set afterwards, as for \<^verbatim>\<open>Decorator\<close>: \<open>BlockStatement_as True\<close>.
\<close>

function (sequential)
  Program ::
    "('x Parser_scheme) Hooks \<Rightarrow> HBS_Program \<Rightarrow> 'x Parser_scheme \<Rightarrow>
     error + (Node \<times> 'x Parser_scheme)"
  and acceptNodes ::
    "('x Parser_scheme) Hooks \<Rightarrow> HBS_Statement list \<Rightarrow> 'x Parser_scheme \<Rightarrow>
     error + 'x Parser_scheme"
  and acceptNode ::
    "('x Parser_scheme) Hooks \<Rightarrow> HBS_Statement \<Rightarrow> 'x Parser_scheme \<Rightarrow>
     error + (Node option \<times> 'x Parser_scheme)"
  and BlockStatement_as ::
    "bool \<Rightarrow> ('x Parser_scheme) Hooks \<Rightarrow> HBS_Expression \<Rightarrow> HBS_Expression list \<Rightarrow>
     HBS_Hash option \<Rightarrow> HBS_Program \<Rightarrow> HBS_Program option \<Rightarrow> StripFlags \<Rightarrow> StripFlags \<Rightarrow>
     StripFlags \<Rightarrow> SourceLocation \<Rightarrow> 'x Parser_scheme \<Rightarrow>
     error + (Node option \<times> 'x Parser_scheme)"
  and PartialBlockStatement ::
    "('x Parser_scheme) Hooks \<Rightarrow> HBS_Expression \<Rightarrow> HBS_Expression list \<Rightarrow>
     HBS_Hash option \<Rightarrow> HBS_Program \<Rightarrow> StripFlags \<Rightarrow> StripFlags \<Rightarrow> SourceLocation \<Rightarrow>
     'x Parser_scheme \<Rightarrow> error + (Node option \<times> 'x Parser_scheme)"
where
  "Program h (HBS_Program body blockParams chained None) s = Inl TypeError"
| "Program h (HBS_Program body blockParams chained (Some l)) s =
     (let node = program_node s blockParams chained l;
          s1 = push_element node s
      in if length body = 0 then pop_element s1
         else (case acceptNodes h body s1 of
                 Inl e \<Rightarrow> Inl e
               | Inr s2 \<Rightarrow> pop_and_check node s2))"
| "acceptNodes h [] s = Inr s"
| "acceptNodes h (x # xs) s =
     (case acceptNode h x s of
        Inl e \<Rightarrow> Inl e
      | Inr (r, s1) \<Rightarrow> acceptNodes h xs s1)"
| "acceptNode h (HBS_MustacheStatement p ps hs escaped strip l) s =
     MustacheStatement h p ps hs escaped strip l s"
| "acceptNode h (HBS_Decorator p ps hs escaped strip l) s =
     Decorator h p ps hs escaped strip l s"
| "acceptNode h (HBS_BlockStatement p ps hs program inverseBlock s1 s2 s3 l) s =
     BlockStatement_as False h p ps hs program inverseBlock s1 s2 s3 l s"
| "acceptNode h (HBS_DecoratorBlock p ps hs program inverseBlock s1 s2 s3 l) s =
     BlockStatement_as True h p ps hs program inverseBlock s1 s2 s3 l s"
| "acceptNode h (HBS_PartialStatement p ps hs strip indent l) s =
     PartialStatement h p ps hs strip indent l s"
| "acceptNode h (HBS_PartialBlockStatement p ps hs program s1 s2 l) s =
     PartialBlockStatement h p ps hs program s1 s2 l s"
| "acceptNode h (HBS_ContentStatement v original l) s =
     (case ContentStatement h v original l s of
        Inl e \<Rightarrow> Inl e
      | Inr s1 \<Rightarrow> Inr (None, s1))"
| "acceptNode h (HBS_CommentStatement v l) s = CommentStatement h v l s"
| "BlockStatement_as decorator h rawPath rawParams rawHash program inverseBlock
     openStrip inverseStrip closeStrip l s =
     (if tokenizer_state s = comment then
        (case appendToCommentData h (sourceForNode h l) s of
           Inl e \<Rightarrow> Inl e
         | Inr s1 \<Rightarrow> Inr (None, s1))
      else if tokenizer_state s \<noteq> data \<and> tokenizer_state s \<noteq> beforeData then
        Inl (SyntaxError block_state_message (spanFor l))
      else
        (case acceptCallNodes rawPath rawParams rawHash of
           Inl e \<Rightarrow> Inl e
         | Inr (path, params, hash) \<Rightarrow>
             (case Program h (backfill program) s of
                Inl e \<Rightarrow> Inl e
              | Inr (defaultBlock, s1) \<Rightarrow>
                  (case (case inverseBlock of
                           None \<Rightarrow> Inr (None, s1)
                         | Some inverseProgram \<Rightarrow>
                             (case Program h (backfill inverseProgram) s1 of
                                Inl e \<Rightarrow> Inl e
                              | Inr (elseBlock, s2) \<Rightarrow> Inr (Some elseBlock, s2))) of
                     Inl e \<Rightarrow> Inl e
                   | Inr (elseBlock, s2) \<Rightarrow>
                       (let node = block_node decorator path params hash defaultBlock elseBlock
                                     (spanFor l) openStrip inverseStrip closeStrip
                        in case appendChild_currentElement node s2 of
                             Inl e \<Rightarrow> Inl e
                           | Inr s3 \<Rightarrow> Inr (Some node, s3))))))"
| "PartialBlockStatement h rawName rawParams rawHash program openStrip closeStrip l s =
     (case acceptCallNodes rawName rawParams rawHash of
        Inl e \<Rightarrow> Inl e
      | Inr (name, params, hash) \<Rightarrow>
          (case Program h program s of
             Inl e \<Rightarrow> Inl e
           | Inr (body, s1) \<Rightarrow>
               (let node = ASTv1_PartialBlockStatement name params hash body
                             openStrip closeStrip (spanFor l)
                in case appendChild_currentElement node s1 of
                     Inl e \<Rightarrow> Inl e
                   | Inr s2 \<Rightarrow> Inr (Some node, s2))))"
  by pat_completeness auto
termination
proof -
  have size_backfill: "size (backfill p) = size p" for p
    by (cases p rule: backfill.cases) simp_all
  show ?thesis
    by (relation "measure (\<lambda>x. case x of
           Inl (Inl (h, p, s)) \<Rightarrow> 2 * size p
         | Inl (Inr (h, xs, s)) \<Rightarrow> 2 * size_list size xs + 1
         | Inr (Inl (h, x, s)) \<Rightarrow> 2 * size x
         | Inr (Inr (Inl (d, h, p, ps, hs, program, inverseBlock, r))) \<Rightarrow>
             2 * (size program + size_option size inverseBlock) + 1
         | Inr (Inr (Inr (h, p, ps, hs, program, r))) \<Rightarrow> 2 * size program + 1)")
      (auto simp: size_backfill)
qed

declare BlockStatement_as.simps [simp del]
declare PartialBlockStatement.simps [simp del]

section \<open>The AST builder utility\<close>

subsection \<open>Descriptions (input) and nodes (output)\<close>

record Span =
  span_start :: nat
  span_end :: nat

datatype Head = LocalReference string | ArgReference string | This

datatype B_PathExpression =
  B_PathExpression (b_head: Head) (b_tail: "string list option")

datatype B_Expression =
    B_SubExpression B_Expression "B_Expression list" "B_Hash option"
  | B_Path B_PathExpression
  | B_StringLiteral string
  | B_BooleanLiteral bool
  | B_NumberLiteral js_number
  | B_UndefinedLiteral
  | B_NullLiteral
and B_Hash = B_Hash "B_HashPair list"
and B_HashPair = B_HashPair string B_Expression

datatype B_Statement =
    B_MustacheStatement B_Expression "B_Expression list" "B_Hash option" bool
  | B_ContentMustache B_Expression
  | B_BlockStatement B_PathExpression "B_Expression list" "B_Hash option"
      B_Program "B_Program option"
  | B_ContentStatement string
  | B_CommentStatement string
and B_Program = B_Program "B_Statement list" "string list option"

datatype hbs_Head =
    hbs_LocalReference Span string
  | hbs_This Span
  | hbs_ArgReference Span string

datatype hbs_PathSegment = hbs_PathSegment Span string

datatype hbs_Expression =
    hbs_PathExpression Span hbs_Head "hbs_PathSegment list option"
  | hbs_BooleanLiteral Span bool
  | hbs_NumberLiteral Span js_number
  | hbs_StringLiteral Span string

datatype hbs_HashPair = hbs_HashPair Span string hbs_Expression

datatype hbs_Hash = hbs_Hash Span "hbs_HashPair list"

datatype hbs_Statement =
    hbs_ContentStatement Span string StripFlags
  | hbs_MustacheContent Span hbs_Expression
  | hbs_BlockStatement bool Span hbs_Expression "hbs_Expression list" "hbs_Hash option"
      hbs_Program "hbs_Program option" StripFlags StripFlags StripFlags
  | hbs_MustacheStatement Span hbs_Expression "hbs_Expression list" "hbs_Hash option"
      bool StripFlags
and hbs_Program = hbs_Program Span "hbs_Statement list" "string list option"

definition NO_STRIP :: StripFlags where
  "NO_STRIP = \<lparr>strip_open = False, strip_close = False\<rparr>"

subsection \<open>Text of literals\<close>

text \<open>\<^verbatim>\<open>String(value)\<close> of a boolean.\<close>

definition String_boolean :: "bool \<Rightarrow> string" where
  "String_boolean b = (if b then ''true'' else ''false'')"

text \<open>
  \<^verbatim>\<open>JSON.stringify(value)\<close> of a string: the text in double quotes, with the quote, the
  backslash and the control characters escaped.
\<close>

definition hex_digit :: "nat \<Rightarrow> char" where
  "hex_digit n = (if n < 10 then char_of (48 + n) else char_of (87 + n))"

definition json_escape :: "char \<Rightarrow> string" where
  "json_escape c =
     (if c = CHR 0x22 then [CHR 0x5C, CHR 0x22]
      else if c = CHR 0x5C then [CHR 0x5C, CHR 0x5C]
      else if c = CHR 0x08 then [CHR 0x5C, CHR ''b'']
      else if c = CHR 0x0C then [CHR 0x5C, CHR ''f'']
      else if c = CHR 0x0A then [CHR 0x5C, CHR ''n'']
      else if c = CHR 0x0D then [CHR 0x5C, CHR ''r'']
      else if c = CHR 0x09 then [CHR 0x5C, CHR ''t'']
      else if (of_char c :: nat) < 32 then
        [CHR 0x5C, CHR ''u'', CHR ''0'', CHR ''0'',
         hex_digit (of_char c div 16), hex_digit (of_char c mod 16)]
      else [c])"

definition JSON_stringify :: "string \<Rightarrow> string" where
  "JSON_stringify v = CHR 0x22 # concat (map json_escape v) @ [CHR 0x22]"

subsection \<open>The cursor\<close>

text \<open>
  The builder's only state is its cursor \<^verbatim>\<open>pos\<close>: every method takes the cursor and returns
  its result with the new cursor, or the error it throws.
\<close>

definition consume :: "string \<Rightarrow> nat \<Rightarrow> Span \<times> nat" where
  "consume chars pos = (\<lparr>span_start = pos, span_end = pos + length chars\<rparr>, pos + length chars)"

text \<open>
  \<^verbatim>\<open>spanned(cb)\<close> reads the cursor, runs the callback, and calls the function the callback
  returned on the span from the cursor before to the cursor after the callback. That
  function builds the node; it runs after the span is fixed, and may itself move the cursor.
\<close>

definition spanned ::
  "(nat \<Rightarrow> error + ((Span \<Rightarrow> nat \<Rightarrow> error + ('a \<times> nat)) \<times> nat)) \<Rightarrow> nat \<Rightarrow> error + ('a \<times> nat)" where
  "spanned cb pos =
     (case cb pos of
        Inl e \<Rightarrow> Inl e
      | Inr (next, pos1) \<Rightarrow> next \<lparr>span_start = pos, span_end = pos1\<rparr> pos1)"

text \<open>A returned function that only builds the node (\<^verbatim>\<open>span => ({...})\<close>).\<close>

definition node_of :: "(Span \<Rightarrow> 'a) \<Rightarrow> Span \<Rightarrow> nat \<Rightarrow> error + ('a \<times> nat)" where
  "node_of mk sp pos = Inr (mk sp, pos)"

text \<open>\<^verbatim>\<open>items.map(f)\<close> and the \<^verbatim>\<open>for\<close> loops over a method that moves the cursor.\<close>

fun traverse ::
  "('a \<Rightarrow> nat \<Rightarrow> error + ('b \<times> nat)) \<Rightarrow> 'a list \<Rightarrow> nat \<Rightarrow> error + ('b list \<times> nat)" where
  "traverse f [] pos = Inr ([], pos)"
| "traverse f (x # xs) pos =
     (case f x pos of
        Inl e \<Rightarrow> Inl e
      | Inr (y, pos1) \<Rightarrow>
          (case traverse f xs pos1 of
             Inl e \<Rightarrow> Inl e
           | Inr (ys, pos2) \<Rightarrow> Inr (y # ys, pos2)))"

subsection \<open>Expressions\<close>

definition AstBuilder_var :: "Head \<Rightarrow> nat \<Rightarrow> error + (hbs_Head \<times> nat)" where
  "AstBuilder_var item =
     spanned (\<lambda>pos.
       case item of
         LocalReference name \<Rightarrow>
           Inr (node_of (\<lambda>sp. hbs_LocalReference sp name), snd (consume name pos))
       | This \<Rightarrow> Inr (node_of (\<lambda>sp. hbs_This sp), snd (consume ''this'' pos))
       | ArgReference name \<Rightarrow>
           Inr (node_of (\<lambda>sp. hbs_ArgReference sp name),
                snd (consume name (snd (consume ''@'' pos)))))"

definition AstBuilder_segment :: "string \<Rightarrow> nat \<Rightarrow> error + (hbs_PathSegment \<times> nat)" where
  "AstBuilder_segment item pos =
     spanned (\<lambda>pos1. Inr (node_of (\<lambda>sp. hbs_PathSegment sp item), snd (consume item pos1)))
       (snd (consume ''.'' pos))"

definition AstBuilder_segments ::
  "string list option \<Rightarrow> nat \<Rightarrow> error + (hbs_PathSegment list option \<times> nat)" where
  "AstBuilder_segments items pos =
     (case items of
        None \<Rightarrow> Inr (None, pos)
      | Some xs \<Rightarrow>
          (case traverse AstBuilder_segment xs pos of
             Inl e \<Rightarrow> Inl e
           | Inr (segs, pos1) \<Rightarrow> Inr (Some segs, pos1)))"

definition AstBuilder_path :: "B_PathExpression \<Rightarrow> nat \<Rightarrow> error + (hbs_Expression \<times> nat)" where
  "AstBuilder_path expression =
     spanned (\<lambda>pos.
       case AstBuilder_var (b_head expression) pos of
         Inl e \<Rightarrow> Inl e
       | Inr (head, pos1) \<Rightarrow>
           (case AstBuilder_segments (b_tail expression) pos1 of
              Inl e \<Rightarrow> Inl e
            | Inr (tail, pos2) \<Rightarrow>
                Inr (node_of (\<lambda>sp. hbs_PathExpression sp head tail), pos2)))"

fun AstBuilder_expr :: "B_Expression \<Rightarrow> nat \<Rightarrow> error + (hbs_Expression \<times> nat)" where
  "AstBuilder_expr (B_BooleanLiteral v) =
     spanned (\<lambda>pos. Inr (node_of (\<lambda>sp. hbs_BooleanLiteral sp v),
                          snd (consume (String_boolean v) pos)))"
| "AstBuilder_expr (B_NumberLiteral v) =
     spanned (\<lambda>pos. Inr (node_of (\<lambda>sp. hbs_NumberLiteral sp v),
                          snd (consume (String_number v) pos)))"
| "AstBuilder_expr (B_StringLiteral v) =
     spanned (\<lambda>pos. Inr (node_of (\<lambda>sp. hbs_StringLiteral sp v),
                          snd (consume (JSON_stringify v) pos)))"
| "AstBuilder_expr (B_Path expression) = AstBuilder_path expression"
| "AstBuilder_expr (B_SubExpression c ps h) = (\<lambda>pos. Inl (PlainError ''unimplemented SubExpression''))"
| "AstBuilder_expr B_UndefinedLiteral = (\<lambda>pos. Inl (PlainError ''unimplemented UndefinedLiteral''))"
| "AstBuilder_expr B_NullLiteral = (\<lambda>pos. Inl (PlainError ''unimplemented NullLiteral''))"

definition AstBuilder_exprs ::
  "B_Expression list \<Rightarrow> nat \<Rightarrow> error + (hbs_Expression list \<times> nat)" where
  "AstBuilder_exprs params = traverse AstBuilder_expr params"

text \<open>
  \<^verbatim>\<open>hashPair\<close>: the callback given to \<^verbatim>\<open>spanned\<close> consumes nothing; the value is built inside
  the function it returns.
\<close>

fun AstBuilder_hashPair :: "B_HashPair \<Rightarrow> nat \<Rightarrow> error + (hbs_HashPair \<times> nat)" where
  "AstBuilder_hashPair (B_HashPair key v) =
     spanned (\<lambda>pos.
       Inr (\<lambda>sp pos1.
              case AstBuilder_expr v pos1 of
                Inl e \<Rightarrow> Inl e
              | Inr (value, pos2) \<Rightarrow> Inr (hbs_HashPair sp key value, pos2),
            pos))"

fun AstBuilder_hash :: "B_Hash option \<Rightarrow> nat \<Rightarrow> error + (hbs_Hash option \<times> nat)" where
  "AstBuilder_hash None pos = Inr (None, pos)"
| "AstBuilder_hash (Some (B_Hash pairs)) pos =
     (case spanned (\<lambda>pos1.
              case traverse AstBuilder_hashPair pairs pos1 of
                Inl e \<Rightarrow> Inl e
              | Inr (out, pos2) \<Rightarrow> Inr (node_of (\<lambda>sp. hbs_Hash sp out), pos2)) pos of
        Inl e \<Rightarrow> Inl e
      | Inr (hash, pos3) \<Rightarrow> Inr (Some hash, pos3))"

subsection \<open>Statements\<close>

definition pathString :: "B_PathExpression \<Rightarrow> string" where
  "pathString expr =
     (case b_head expr of
        ArgReference name \<Rightarrow> CHR ''@'' # name
      | LocalReference name \<Rightarrow> name
      | This \<Rightarrow> ''this'') @
     (case b_tail expr of Some tail \<Rightarrow> join ''.'' tail | None \<Rightarrow> [])"

lemma spanned_cong [fundef_cong]:
  "pos = pos' \<Longrightarrow> (\<And>p. p = pos' \<Longrightarrow> cb p = cb' p) \<Longrightarrow> spanned cb pos = spanned cb' pos'"
  by (simp add: spanned_def)

function (sequential)
  AstBuilder_visit :: "B_Statement \<Rightarrow> nat \<Rightarrow> error + (hbs_Statement \<times> nat)"
  and AstBuilder_visits :: "B_Statement list \<Rightarrow> nat \<Rightarrow> error + (hbs_Statement list \<times> nat)"
  and AstBuilder_program :: "B_Program \<Rightarrow> nat \<Rightarrow> error + (hbs_Program \<times> nat)"
where
  "AstBuilder_visit (B_ContentStatement v) pos =
     Inr (hbs_ContentStatement (fst (consume v pos)) v
            \<lparr>strip_open = False, strip_close = False\<rparr>,
          snd (consume v pos))"
| "AstBuilder_visit (B_ContentMustache v) pos =
     spanned (\<lambda>pos0.
       case AstBuilder_expr v (snd (consume ''{{'' pos0)) of
         Inl e \<Rightarrow> Inl e
       | Inr (value, pos1) \<Rightarrow>
           Inr (node_of (\<lambda>sp. hbs_MustacheContent sp value), snd (consume ''}}'' pos1))) pos"
| "AstBuilder_visit (B_BlockStatement call params hash program inverseBlock) pos =
     spanned (\<lambda>pos0.
       case AstBuilder_path call (snd (consume ''{{#'' pos0)) of
         Inl e \<Rightarrow> Inl e
       | Inr (path, pos1) \<Rightarrow>
           (case (if length params \<noteq> 0
                  then AstBuilder_exprs params (snd (consume '' '' pos1))
                  else Inr ([], pos1)) of
              Inl e \<Rightarrow> Inl e
            | Inr (params1, pos2) \<Rightarrow>
                (case (if hash \<noteq> None
                       then AstBuilder_hash hash (snd (consume '' '' pos2))
                       else Inr (None, pos2)) of
                   Inl e \<Rightarrow> Inl e
                 | Inr (hash1, pos3) \<Rightarrow>
                     (case AstBuilder_program program pos3 of
                        Inl e \<Rightarrow> Inl e
                      | Inr (program1, pos4) \<Rightarrow>
                          (case (case inverseBlock of
                                   None \<Rightarrow> Inr (None, pos4)
                                 | Some inverseProgram \<Rightarrow>
                                     (case AstBuilder_program inverseProgram
                                             (snd (consume ''{{else}}'' pos4)) of
                                        Inl e \<Rightarrow> Inl e
                                      | Inr (i, pos5) \<Rightarrow> Inr (Some i, pos5))) of
                             Inl e \<Rightarrow> Inl e
                           | Inr (inverse1, pos5) \<Rightarrow>
                               Inr (node_of (\<lambda>sp. hbs_BlockStatement False sp path params1 hash1
                                                    program1 inverse1 NO_STRIP NO_STRIP NO_STRIP),
                                    snd (consume ''}}''
                                      (snd (consume (pathString call)
                                        (snd (consume ''{{/'' pos5))))))))))) pos"
| "AstBuilder_visit (B_MustacheStatement c params hash trusted) pos =
     spanned (\<lambda>pos0.
       case AstBuilder_expr c (snd (consume ''{{'' pos0)) of
         Inl e \<Rightarrow> Inl e
       | Inr (call, pos1) \<Rightarrow>
           (case AstBuilder_exprs params pos1 of
              Inl e \<Rightarrow> Inl e
            | Inr (params1, pos2) \<Rightarrow>
                (case AstBuilder_hash hash pos2 of
                   Inl e \<Rightarrow> Inl e
                 | Inr (hash1, pos3) \<Rightarrow>
                     Inr (node_of (\<lambda>sp. hbs_MustacheStatement sp call params1 hash1 False NO_STRIP),
                          snd (consume ''}}'' pos3))))) pos"
| "AstBuilder_visit (B_CommentStatement v) pos =
     Inl (PlainError ''unimplemented CommentStatement for AST builder'')"
| "AstBuilder_visits [] pos = Inr ([], pos)"
| "AstBuilder_visits (x # xs) pos =
     (case AstBuilder_visit x pos of
        Inl e \<Rightarrow> Inl e
      | Inr (y, pos1) \<Rightarrow>
          (case AstBuilder_visits xs pos1 of
             Inl e \<Rightarrow> Inl e
           | Inr (ys, pos2) \<Rightarrow> Inr (y # ys, pos2)))"
| "AstBuilder_program (B_Program body blockParams) pos =
     spanned (\<lambda>pos0.
       case AstBuilder_visits body pos0 of
         Inl e \<Rightarrow> Inl e
       | Inr (body1, pos1) \<Rightarrow> Inr (node_of (\<lambda>sp. hbs_Program sp body1 blockParams), pos1))
       (case blockParams of
          Some names \<Rightarrow>
            snd (consume ''|}}'' (snd (consume (join '' '' names) (snd (consume '' as |'' pos)))))
        | None \<Rightarrow> snd (consume ''}}'' pos))"
  by pat_completeness auto
termination
  by (relation "measure (\<lambda>x. case x of
         Inl (s, pos) \<Rightarrow> 2 * size s
       | Inr (Inl (xs, pos)) \<Rightarrow> 2 * size_list size xs + 1
       | Inr (Inr (p, pos)) \<Rightarrow> 2 * size p)") auto

definition AstBuilder_build :: "B_Statement list \<Rightarrow> nat \<Rightarrow> error + (hbs_Program \<times> nat)" where
  "AstBuilder_build body =
     spanned (\<lambda>pos.
       case AstBuilder_visits body pos of
         Inl e \<Rightarrow> Inl e
       | Inr (statements, pos1) \<Rightarrow> Inr (node_of (\<lambda>sp. hbs_Program sp statements None), pos1))"

text \<open>A new builder starts with its cursor at 0.\<close>

definition build :: "B_Statement list \<Rightarrow> error + hbs_Program" where
  "build body = (case AstBuilder_build body 0 of Inl e \<Rightarrow> Inl e | Inr (p, pos) \<Rightarrow> Inr p)"

subsection \<open>The functions that write descriptions\<close>

text \<open>An object literal is modelled by the list of its keys and values, in key order.\<close>

definition hash :: "(string \<times> B_Expression) list \<Rightarrow> B_Hash" where
  "hash m = B_Hash (map (\<lambda>(key, v). B_HashPair key v) m)"

text \<open>An optional argument that was left out (\<^verbatim>\<open>undefined\<close>) is \<open>None\<close>.\<close>

definition mustache ::
  "B_Expression \<Rightarrow> B_Expression list option \<Rightarrow> (string \<times> B_Expression) list option \<Rightarrow>
   B_Statement" where
  "mustache call params hashObject =
     (if params \<noteq> None \<or> hashObject \<noteq> None then
        B_MustacheStatement call
          (case params of Some ps \<Rightarrow> ps | None \<Rightarrow> [])
          (case hashObject of Some m \<Rightarrow> Some (hash m) | None \<Rightarrow> None)
          False
      else B_ContentMustache call)"

definition path :: "string \<Rightarrow> B_PathExpression" where
  "path p =
     (let ps = split_char CHR ''.'' p;
          first = hd ps;
          parts = tl ps;
          head = (if take 1 p = ''@'' then ArgReference (drop 1 first)
                  else if first = ''this'' then This
                  else LocalReference first)
      in B_PathExpression head (if length parts \<noteq> 0 then Some parts else None))"

definition atPath :: "string \<Rightarrow> B_PathExpression" where
  "atPath p =
     (let parts = split_char CHR ''.'' p
      in B_PathExpression (ArgReference (hd parts))
           (if length parts > 1 then Some (tl parts) else None))"

section \<open>Notions used in the statements\<close>

text \<open>The location on line \<open>n\<close> from column \<open>a\<close> to column \<open>b\<close>.\<close>

definition on_line :: "nat \<Rightarrow> nat \<Rightarrow> nat \<Rightarrow> SourceLocation" where
  "on_line n a b = \<lparr>loc_start = \<lparr>line = n, column = a\<rparr>, loc_end = \<lparr>line = n, column = b\<rparr>\<rparr>"

text \<open>The result of resolving a path is a path whose head is the contextual receiver.\<close>

fun has_this_head :: "error + ASTv1_Expression \<Rightarrow> bool" where
  "has_this_head (Inr (ASTv1_PathExpression original (ThisHead hl) t l)) = True"
| "has_this_head _ = False"

text \<open>
  The words of the spec for the right-stripped offsets: the number of newlines of a text,
  its last line (what follows its last newline), and the prefix of a text before the first
  occurrence of another (the whole text when there is no occurrence).
\<close>

definition newline_count :: "string \<Rightarrow> nat" where
  "newline_count s = length (filter (\<lambda>c. c = newline) s)"

definition last_line :: "string \<Rightarrow> string" where
  "last_line s = rev (takeWhile (\<lambda>c. c \<noteq> newline) (rev s))"

fun before_first :: "string \<Rightarrow> string \<Rightarrow> string" where
  "before_first v [] = []"
| "before_first v (x # xs) = (if prefix v (x # xs) then [] else x # before_first v xs)"

text \<open>
  A small stand-in for the external tokenizer and the event handlers, for the examples. A
  text that starts with \<open><\<close> and has its \<open>>\<close> is a finished start tag: it opens the element
  it names, which goes onto the element stack. A text that starts with \<open><\<close> and has no \<open>>\<close>
  is an unfinished start tag: the tokenizer is left in the tag name and no element exists
  yet. Any other text changes nothing, and the abstract methods do nothing. The parser of
  the examples has the template on its stack and its cursor at line 1, column 0.
\<close>

definition example_tokenizePart :: "string \<Rightarrow> Parser \<Rightarrow> error + Parser" where
  "example_tokenizePart text s =
     (if take 1 text = ''<'' \<and> CHR ''>'' \<in> set text then
        Inr (s\<lparr>elementStack :=
                 ASTv1_ElementNode (next_id s) (takeWhile (\<lambda>c. c \<noteq> CHR ''>'') (drop 1 text))
                   [] [] [] [] (on_line (tokenizer_line s) (tokenizer_column s)
                                  (tokenizer_column s + length text)) # elementStack s,
               next_id := Suc (next_id s)\<rparr>)
      else if take 1 text = ''<'' then Inr (s\<lparr>tokenizer_state := tagName\<rparr>)
      else Inr s)"

definition example_hooks :: "Parser Hooks" where
  "example_hooks =
     \<lparr>appendToCommentData = (\<lambda>text s. Inr s),
      beginAttributeValue = (\<lambda>quoted s. Inr s),
      finishAttributeValue = (\<lambda>s. Inr s),
      tokenizePart = example_tokenizePart,
      flushData = (\<lambda>s. Inr s),
      sourceForNode = (\<lambda>l. [])\<rparr>"

definition example_parser :: "TokenizerState \<Rightarrow> Parser" where
  "example_parser st =
     \<lparr>tokenizer_state = st, tokenizer_line = 1, tokenizer_column = 0,
      elementStack = [ASTv1_Template 0 [] [] (on_line 1 0 0)],
      currentStartTag = \<lparr>tag_name = ''div'', tag_attributes = [], modifiers = [], comments = []\<rparr>,
      currentAttr = \<lparr>attr_name = ''class'', parts = [], currentPart = None, isDynamic = False\<rparr>,
      next_id = 1\<rparr>"

text \<open>
  The words of the spec for the children of a body: each child is visited, in the order of
  the body, in the state the child before it left; the first error ends the visits.
\<close>

definition visit_each ::
  "('x Parser_scheme) Hooks \<Rightarrow> HBS_Statement \<Rightarrow> error + 'x Parser_scheme \<Rightarrow>
   error + 'x Parser_scheme" where
  "visit_each h x r =
     (case r of
        Inl e \<Rightarrow> Inl e
      | Inr s \<Rightarrow> (case acceptNode h x s of Inl e \<Rightarrow> Inl e | Inr (n, s1) \<Rightarrow> Inr s1))"

definition visit_in_order ::
  "('x Parser_scheme) Hooks \<Rightarrow> HBS_Statement list \<Rightarrow> 'x Parser_scheme \<Rightarrow>
   error + 'x Parser_scheme" where
  "visit_in_order h body s = fold (visit_each h) body (Inr s)"

text \<open>
  A parser at the top level (nothing on the element stack), and the two contents of the
  template \<open>hi <div>\<close>: a text and a start tag that nothing closes.
\<close>

definition top_level_parser :: Parser where
  "top_level_parser = (example_parser beforeData)\<lparr>elementStack := []\<rparr>"

definition two_contents :: "HBS_Statement list" where
  "two_contents =
     [HBS_ContentStatement ''hi '' ''hi '' (on_line 1 0 3),
      HBS_ContentStatement ''<div>'' ''<div>'' (on_line 1 3 8)]"

definition example_mustache :: Node where
  "example_mustache =
     ASTv1_MustacheStatement
       (ASTv1_PathExpression ''mod'' (VarHead (Some ''mod'') (on_line 1 7 10)) (Some [])
          (on_line 1 7 10))
       [] (ASTv1_Hash [] (on_line 1 10 10)) False (on_line 1 5 12) NO_STRIP"

text \<open>The statement \<open>{{helper arg1}}\<close> at line 1, column 0, and the node it is translated to.\<close>

definition helper_call :: HBS_Statement where
  "helper_call =
     HBS_MustacheStatement (HBS_PathExpression False [''helper''] ''helper'' (on_line 1 2 8))
       [HBS_PathExpression False [''arg1''] ''arg1'' (on_line 1 9 13)] None True NO_STRIP
       (on_line 1 0 15)"

definition helper_mustache :: Node where
  "helper_mustache =
     ASTv1_MustacheStatement
       (ASTv1_PathExpression ''helper'' (VarHead (Some ''helper'') (on_line 1 2 8)) (Some [])
          (on_line 1 2 8))
       [ASTv1_PathExpression ''arg1'' (VarHead (Some ''arg1'') (on_line 1 9 13)) (Some [])
          (on_line 1 9 13)]
       (ASTv1_Hash [] (on_line 1 13 13)) False (on_line 1 0 15) NO_STRIP"

text \<open>The partial \<open>{{> helper arg1}}\<close> at line 1, column 0, and the node it is translated to.\<close>

definition helper_partial :: HBS_Statement where
  "helper_partial =
     HBS_PartialStatement (HBS_PathExpression False [''helper''] ''helper'' (on_line 1 4 10))
       [HBS_PathExpression False [''arg1''] ''arg1'' (on_line 1 11 15)] None NO_STRIP []
       (on_line 1 0 17)"

definition helper_partial_node :: Node where
  "helper_partial_node =
     ASTv1_PartialStatement
       (ASTv1_PathExpression ''helper'' (VarHead (Some ''helper'') (on_line 1 4 10)) (Some [])
          (on_line 1 4 10))
       [ASTv1_PathExpression ''arg1'' (VarHead (Some ''arg1'') (on_line 1 11 15)) (Some [])
          (on_line 1 11 15)]
       (ASTv1_Hash [] (on_line 1 15 15)) NO_STRIP [] (on_line 1 0 17)"

text \<open>
  The mustache \<open>{{"foo" bar}}\<close> at line 1, column 0, whose call target is a literal and which
  has one positional parameter, and the node it is translated to.
\<close>

definition literal_call :: HBS_Statement where
  "literal_call =
     HBS_MustacheStatement (HBS_StringLiteral ''foo'' (on_line 1 2 7))
       [HBS_PathExpression False [''bar''] ''bar'' (on_line 1 8 11)] None True NO_STRIP
       (on_line 1 0 13)"

definition literal_call_node :: Node where
  "literal_call_node =
     ASTv1_MustacheStatement (ASTv1_StringLiteral ''foo'' (on_line 1 2 7)) []
       (ASTv1_Hash [] (on_line 1 7 7)) False (on_line 1 0 13) NO_STRIP"

text \<open>The node the mustache \<open>{{"a string"}}\<close> at line 1, column 0 is translated to.\<close>

definition string_mustache :: Node where
  "string_mustache =
     ASTv1_MustacheStatement (ASTv1_StringLiteral ''a string'' (on_line 1 2 12)) []
       (ASTv1_Hash [] (on_line 1 12 12)) False (on_line 1 0 14) NO_STRIP"

text \<open>The call nodes of the syntax tree, and the hash each carries.\<close>

fun is_call_statement :: "HBS_Statement \<Rightarrow> bool" where
  "is_call_statement (HBS_ContentStatement v original l) = False"
| "is_call_statement (HBS_CommentStatement v l) = False"
| "is_call_statement _ = True"

fun statement_hash :: "HBS_Statement \<Rightarrow> HBS_Hash option" where
  "statement_hash (HBS_MustacheStatement p ps h e st l) = h"
| "statement_hash (HBS_Decorator p ps h e st l) = h"
| "statement_hash (HBS_BlockStatement p ps h b i s1 s2 s3 l) = h"
| "statement_hash (HBS_DecoratorBlock p ps h b i s1 s2 s3 l) = h"
| "statement_hash (HBS_PartialStatement p ps h st ind l) = h"
| "statement_hash (HBS_PartialBlockStatement p ps h b s1 s2 l) = h"
| "statement_hash _ = None"

text \<open>
  The call target and the positional parameters of a call node of the syntax tree, and
  whether the call target of a mustache is a literal.
\<close>

fun statement_path :: "HBS_Statement \<Rightarrow> HBS_Expression option" where
  "statement_path (HBS_MustacheStatement p ps h e st l) = Some p"
| "statement_path (HBS_Decorator p ps h e st l) = Some p"
| "statement_path (HBS_BlockStatement p ps h b i s1 s2 s3 l) = Some p"
| "statement_path (HBS_DecoratorBlock p ps h b i s1 s2 s3 l) = Some p"
| "statement_path (HBS_PartialStatement p ps h st ind l) = Some p"
| "statement_path (HBS_PartialBlockStatement p ps h b s1 s2 l) = Some p"
| "statement_path _ = None"

fun statement_params :: "HBS_Statement \<Rightarrow> HBS_Expression list" where
  "statement_params (HBS_MustacheStatement p ps h e st l) = ps"
| "statement_params (HBS_Decorator p ps h e st l) = ps"
| "statement_params (HBS_BlockStatement p ps h b i s1 s2 s3 l) = ps"
| "statement_params (HBS_DecoratorBlock p ps h b i s1 s2 s3 l) = ps"
| "statement_params (HBS_PartialStatement p ps h st ind l) = ps"
| "statement_params (HBS_PartialBlockStatement p ps h b s1 s2 l) = ps"
| "statement_params _ = []"

fun literal_target :: "HBS_Statement \<Rightarrow> bool" where
  "literal_target (HBS_MustacheStatement p ps h e st l) = isHBSLiteral p"
| "literal_target (HBS_Decorator p ps h e st l) = isHBSLiteral p"
| "literal_target _ = False"

text \<open>
  The words of the spec for the hash of a call without one: no pairs, and the zero-width
  point at the end of the last positional parameter, or at the end of the call target when
  there is no parameter.
\<close>

definition default_hash_after :: "ASTv1_Expression \<Rightarrow> ASTv1_Expression list \<Rightarrow> ASTv1_Hash" where
  "default_hash_after target args =
     ASTv1_Hash []
       \<lparr>loc_start = loc_end (if args = [] then expr_loc target else expr_loc (last args)),
        loc_end = loc_end (if args = [] then expr_loc target else expr_loc (last args))\<rparr>"

fun is_ContentMustache :: "Node \<Rightarrow> bool" where
  "is_ContentMustache (ASTv1_ContentMustache v l) = True"
| "is_ContentMustache _ = False"

text \<open>Spans of the builder's nodes, and containment of one span in another.\<close>

definition span_within :: "Span \<Rightarrow> Span \<Rightarrow> bool" where
  "span_within child parent =
     (span_start parent \<le> span_start child \<and> span_end child \<le> span_end parent)"

fun expr_span :: "hbs_Expression \<Rightarrow> Span" where
  "expr_span (hbs_PathExpression sp h t) = sp"
| "expr_span (hbs_BooleanLiteral sp v) = sp"
| "expr_span (hbs_NumberLiteral sp v) = sp"
| "expr_span (hbs_StringLiteral sp v) = sp"

fun pair_span :: "hbs_HashPair \<Rightarrow> Span" where
  "pair_span (hbs_HashPair sp key v) = sp"

fun pair_value :: "hbs_HashPair \<Rightarrow> hbs_Expression" where
  "pair_value (hbs_HashPair sp key v) = v"

fun statement_span :: "hbs_Statement \<Rightarrow> Span" where
  "statement_span (hbs_ContentStatement sp v st) = sp"
| "statement_span (hbs_MustacheContent sp v) = sp"
| "statement_span (hbs_BlockStatement c sp p ps h b i s1 s2 s3) = sp"
| "statement_span (hbs_MustacheStatement sp c ps h t st) = sp"

fun program_span :: "hbs_Program \<Rightarrow> Span" where
  "program_span (hbs_Program sp body bp) = sp"

section \<open>Path and head resolution: properties\<close>

lemma head_loc_span:
  "loc_start (head_loc l n) = loc_start l \<and>
   line (loc_end (head_loc l n)) = line (loc_start l) \<and>
   column (loc_end (head_loc l n)) = column (loc_start l) + n"
  by (simp add: head_loc_def)




text \<open>
  C4, as the code has it. The head is the contextual receiver exactly when the text passes
  the test \<open>/^this(\..+)?$/\<close>: it is \<open>this\<close>, or \<open>this.\<close> followed by one or more characters
  none of which is a line terminator. Then the head's span starts at the path's start and
  ends 4 columns later on the same line, and the tail is the whole list of the syntax
  tree's segments (joined into one when the text has a slash): the visitor takes no segment
  off for this head.
\<close>

theorem this_head_rewrite:
  "has_this_head (PathExpression d ps original l) = matches_this original \<and>
   (matches_this original \<longrightarrow>
      PathExpression d ps original l =
        Inr (ASTv1_PathExpression original (ThisHead (head_loc l 4))
               (Some (path_parts original ps)) (spanFor l)))"
  by (simp add: PathExpression_def Let_def split: list.splits)

theorem this_head_rewrite_witness:
  "matches_this ''this.foo'' \<and>
   PathExpression False [''foo''] ''this.foo'' (on_line 1 2 10) =
     Inr (ASTv1_PathExpression ''this.foo'' (ThisHead (on_line 1 2 6)) (Some [''foo''])
            (on_line 1 2 10))"
  using this_head_rewrite [of False "[''foo'']" "''this.foo''" "on_line 1 2 10"]
  by (simp add: matches_this_def path_parts_def head_loc_def on_line_def spanFor_def
        is_line_terminator_def)

text \<open>
  C4, as the claim states it, fails twice. The text \<open>this.\<close> begins with \<open>this.\<close> and the head
  is a \<open>VarHead\<close>; and for the text \<open>this\<close> with the segment \<open>this\<close> (the bracketed
  \<open>[this]\<close>), the head is the contextual receiver and \<open>this\<close> is in the tail.
\<close>

theorem this_head_counterexample:
  "PathExpression False [] ''this.'' (on_line 1 2 7) =
     Inr (ASTv1_PathExpression ''this.'' (VarHead None (on_line 1 2 2)) (Some [])
            (on_line 1 2 7)) \<and>
   PathExpression False [''this''] ''this'' (on_line 1 2 8) =
     Inr (ASTv1_PathExpression ''this'' (ThisHead (on_line 1 2 6)) (Some [''this''])
            (on_line 1 2 8))"
  by (simp add: PathExpression_def matches_this_def path_parts_def head_loc_def on_line_def
        spanFor_def)

text \<open>
  C9, as the code has it. A path resolved by the translator has for tail the segments that
  remain after the head (all of them under a \<open>ThisHead\<close>, all but the first otherwise), as an
  array: the empty array when none remains, never \<^verbatim>\<open>null\<close>. The builder's \<^verbatim>\<open>path\<close> function
  gives the parts after the first as the tail, and \<^verbatim>\<open>null\<close> when there is none.
\<close>

theorem path_tail:
  "(\<forall>r. PathExpression d ps original l = Inr r \<longrightarrow>
      path_tail r =
        Some (if matches_this original then path_parts original ps
              else tl (path_parts original ps))) \<and>
   b_tail (path p) =
     (if tl (split_char CHR ''.'' p) = [] then None else Some (tl (split_char CHR ''.'' p)))"
  by (auto simp: PathExpression_def path_def Let_def split: list.splits if_splits)

theorem path_tail_witness:
  "PathExpression False [''foo'', ''bar''] ''foo.bar'' (on_line 1 2 9) =
     Inr (ASTv1_PathExpression ''foo.bar'' (VarHead (Some ''foo'') (on_line 1 2 5))
            (Some [''bar'']) (on_line 1 2 9)) \<and>
   path_tail (ASTv1_PathExpression ''foo.bar'' (VarHead (Some ''foo'') (on_line 1 2 5))
     (Some [''bar'']) (on_line 1 2 9)) = Some [''bar''] \<and>
   b_tail (path ''foo.bar'') = Some [''bar''] \<and> b_tail (path ''foo'') = None"
  using path_tail [of False "[''foo'', ''bar'']" "''foo.bar''" "on_line 1 2 9" "''foo.bar''"]
        path_tail [of False "[''foo'', ''bar'']" "''foo.bar''" "on_line 1 2 9" "''foo''"]
  by (simp add: PathExpression_def matches_this_def path_parts_def head_loc_def on_line_def
        spanFor_def)

text \<open>
  C9, as the claim states it, fails: for the path \<open>foo\<close> no segment remains after the head,
  and the tail the translator gives is the empty array, not \<^verbatim>\<open>null\<close>.
\<close>

theorem path_tail_counterexample:
  "PathExpression False [''foo''] ''foo'' (on_line 1 2 5) =
     Inr (ASTv1_PathExpression ''foo'' (VarHead (Some ''foo'') (on_line 1 2 5)) (Some [])
            (on_line 1 2 5))"
  by (simp add: PathExpression_def matches_this_def path_parts_def head_loc_def on_line_def
        spanFor_def)

section \<open>Content statements: properties\<close>

lemma split_char_nonempty: "split_char c s \<noteq> []"
  by (induction s) (auto split: list.splits)

lemma split_char_length: "length (split_char c s) = Suc (length (filter (\<lambda>x. x = c) s))"
  by (induction s) (auto split: list.splits simp: split_char_nonempty)

lemma split_char_single: "c \<notin> set s \<Longrightarrow> split_char c s = [s]"
  by (induction s) (auto split: list.splits)

lemma split_char_last:
  "last (split_char c s) = rev (takeWhile (\<lambda>x. x \<noteq> c) (rev s))"
proof (induction s)
  case Nil
  then show ?case by simp
next
  case (Cons x xs)
  show ?case
  proof (cases "x = c")
    case True
    then show ?thesis
      using Cons by (simp add: split_char_nonempty takeWhile_append)
  next
    case False
    obtain y ys where sp: "split_char c xs = y # ys"
      using split_char_nonempty [of c xs] by (cases "split_char c xs") auto
    show ?thesis
    proof (cases "c \<in> set xs")
      case True
      then have "ys \<noteq> []"
        using split_char_length [of c xs] sp
        by (auto simp: filter_empty_conv)
      with Cons sp False True show ?thesis
        by (auto simp: takeWhile_append)
    next
      case nin: False
      with split_char_single [of c xs] sp have "y = xs" "ys = []" by auto
      with sp False nin show ?thesis
        by (simp add: takeWhile_append)
    qed
  qed
qed

lemma js_split_nonempty: "v \<noteq> [] \<Longrightarrow> js_split v s \<noteq> []"
  by (subst js_split.simps) (simp split: list.splits)

lemma js_split_hd: "v \<noteq> [] \<Longrightarrow> hd (js_split v s) = before_first v s"
proof (induction s)
  case Nil
  then show ?case by (simp add: js_split.simps [of v "[]"])
next
  case (Cons x xs)
  then show ?case
    using js_split_nonempty [of v xs]
    by (cases "js_split v xs") (auto simp: js_split.simps [of v "x # xs"])
qed

text \<open>\<open>before_first\<close> is the prefix before the first occurrence.\<close>

lemma before_first_occurrence:
  "sublist v s \<Longrightarrow> \<exists>rest. s = before_first v s @ v @ rest"
proof (induction s)
  case Nil
  then show ?case by simp
next
  case (Cons x xs)
  show ?case
  proof (cases "prefix v (x # xs)")
    case True
    then show ?thesis by (auto simp: prefix_def)
  next
    case False
    with Cons.prems have "sublist v xs"
      by (auto simp: sublist_Cons_right)
    with Cons.IH False show ?thesis by auto
  qed
qed

lemma before_first_least:
  "s = a @ v @ b \<Longrightarrow> length (before_first v s) \<le> length a"
proof (induction s arbitrary: a)
  case Nil
  then show ?case by simp
next
  case (Cons x xs)
  show ?case
  proof (cases "prefix v (x # xs)")
    case True
    then show ?thesis by simp
  next
    case False
    with Cons.prems obtain a' where a: "a = x # a'" "xs = a' @ v @ b"
      by (cases a) (auto simp: prefix_def)
    with Cons.IH [of a'] False show ?thesis by simp
  qed
qed

lemma before_first_absent: "\<not> sublist v s \<Longrightarrow> before_first v s = s"
proof (induction s)
  case Nil
  then show ?case by simp
next
  case (Cons x xs)
  then show ?case
    by (auto simp: sublist_Cons_right)
qed

lemma offsets_of_prefix:
  "calculateRightStrippedOffsets original v =
     (if v = [] then \<lparr>lines = newline_count original, columns = 0\<rparr>
      else \<lparr>lines = newline_count (before_first v original),
            columns = length (last_line (before_first v original))\<rparr>)"
proof (cases "v = []")
  case True
  then show ?thesis
    by (simp add: calculateRightStrippedOffsets_def split_char_length newline_count_def)
next
  case False
  let ?d = "before_first v original"
  have "split_char newline ?d ! (length (split_char newline ?d) - 1) = last (split_char newline ?d)"
    using split_char_nonempty [of newline ?d] by (simp add: last_conv_nth)
  with False show ?thesis
    by (simp add: calculateRightStrippedOffsets_def Let_def js_split_hd split_char_length
          split_char_last newline_count_def last_line_def)
qed

text \<open>
  C7, as the code has it. For an empty stripped value the offset is the number of newlines
  of the original text and column 0; otherwise it is the number of newlines of the prefix of
  the original before the first occurrence of the value, and the length of that prefix's
  last line. Before the value is given to the tokenizer, the tokenizer's line is set to the
  start line of the content plus the line offset, and its column to the column offset when
  the line offset is not zero, and to the start column of the content plus the column
  offset otherwise; the tokenizer's own line and column before that are not read.
\<close>

theorem right_stripped_offsets:
  "calculateRightStrippedOffsets original [] = \<lparr>lines = newline_count original, columns = 0\<rparr> \<and>
   (v \<noteq> [] \<longrightarrow>
      calculateRightStrippedOffsets original v =
        \<lparr>lines = newline_count (before_first v original),
         columns = length (last_line (before_first v original))\<rparr>) \<and>
   ContentStatement h v original l s =
     (case tokenizePart h v
        (s\<lparr>tokenizer_line := line (loc_start l) + lines (calculateRightStrippedOffsets original v),
           tokenizer_column :=
             (if lines (calculateRightStrippedOffsets original v) \<noteq> 0
              then columns (calculateRightStrippedOffsets original v)
              else column (loc_start l) + columns (calculateRightStrippedOffsets original v))\<rparr>) of
        Inl e \<Rightarrow> Inl e
      | Inr s1 \<Rightarrow> flushData h s1)"
  by (simp add: offsets_of_prefix ContentStatement_def updateTokenizerLocation_def Let_def)

theorem right_stripped_offsets_witness:
  "calculateRightStrippedOffsets (''  '' @ [newline] @ ''  abc'') ''abc'' =
     \<lparr>lines = 1, columns = 2\<rparr>"
  using right_stripped_offsets [of "''  '' @ [newline] @ ''  abc''" "''abc''" example_hooks
          "on_line 1 0 8" "example_parser data"]
  by (simp add: newline_count_def last_line_def newline_def)

text \<open>
  C7, as the claim states it, fails: with the tokenizer at line 1, column 0 and a content
  \<open>x\<close> that starts at line 3, column 5 (offsets 0 and 0), the tokenizer is moved to line 3,
  column 5, not left at its own line and column advanced by the offsets.
\<close>

theorem tokenizer_location_counterexample:
  "tokenizer_line (updateTokenizerLocation ''x'' ''x'' (on_line 3 5 6) (example_parser data)) = 3 \<and>
   tokenizer_line (example_parser data) + lines (calculateRightStrippedOffsets ''x'' ''x'') = 1 \<and>
   tokenizer_column (updateTokenizerLocation ''x'' ''x'' (on_line 3 5 6) (example_parser data)) = 5 \<and>
   tokenizer_column (example_parser data) + columns (calculateRightStrippedOffsets ''x'' ''x'') = 0"
  by (simp add: updateTokenizerLocation_def offsets_of_prefix Let_def newline_count_def
        last_line_def example_parser_def on_line_def newline_def)

section \<open>Context-sensitive injection: properties\<close>

lemma push_modifier_effect:
  "modifiers (currentStartTag (push_modifier node s)) = modifiers (currentStartTag s) @ [node] \<and>
   comments (currentStartTag (push_modifier node s)) = comments (currentStartTag s) \<and>
   elementStack (push_modifier node s) = elementStack s \<and>
   currentAttr (push_modifier node s) = currentAttr s \<and>
   tokenizer_state (push_modifier node s) = tokenizer_state s"
  by (simp add: push_modifier_def)

lemma appendDynamicAttributeValuePart_effect:
  "parts (currentAttr (appendDynamicAttributeValuePart node s)) =
     parts (currentAttr s) @
     (case currentPart (currentAttr s) of None \<Rightarrow> [] | Some text \<Rightarrow> [text]) @ [node] \<and>
   isDynamic (currentAttr (appendDynamicAttributeValuePart node s)) \<and>
   currentPart (currentAttr (appendDynamicAttributeValuePart node s)) = None \<and>
   currentStartTag (appendDynamicAttributeValuePart node s) = currentStartTag s \<and>
   elementStack (appendDynamicAttributeValuePart node s) = elementStack s \<and>
   tokenizer_state (appendDynamicAttributeValuePart node s) = tokenizer_state s"
  by (simp add: appendDynamicAttributeValuePart_def finalizeTextPart_def startTextPart_def Let_def
        split: option.splits)

lemma appendChild_currentElement_effect:
  "appendChild_currentElement node s = Inr s' \<Longrightarrow>
   \<exists>parent parent' rest.
     elementStack s = parent # rest \<and> appendChild parent node = Inr parent' \<and>
     elementStack s' = parent' # rest \<and> currentStartTag s' = currentStartTag s \<and>
     currentAttr s' = currentAttr s \<and> tokenizer_state s' = tokenizer_state s"
  by (auto simp: appendChild_currentElement_def split: list.splits sum.splits)

text \<open>
  C2, as the code has it. The destination of an injected node is decided by the tokenizer's
  state when it is injected: in \<open>tagOpen\<close> and \<open>tagName\<close> a syntax error is raised; in
  \<open>beforeAttributeName\<close> the node is appended to the modifiers of the current start tag; in
  \<open>attributeName\<close> and \<open>afterAttributeName\<close> an unquoted attribute value is begun and
  finished, the node is appended to the modifiers, and the tokenizer goes to
  \<open>beforeAttributeName\<close>; in \<open>afterAttributeValueQuoted\<close> the node is appended to the modifiers
  and the tokenizer goes to \<open>beforeAttributeName\<close>; in \<open>beforeAttributeValue\<close> an unquoted
  value is begun, the node is appended as a dynamic part of the current attribute's value,
  and the tokenizer goes to \<open>attributeValueUnquoted\<close>; in the three attribute-value states
  the node is appended as a dynamic part; in every other state it is appended as a child of
  the current element.
\<close>

theorem injection_rule:
  "(tokenizer_state s \<in> {tagOpen, tagName} \<longrightarrow>
      injectStatement h node s = Inl (SyntaxError tagname_message (node_loc node))) \<and>
   (tokenizer_state s = beforeAttributeName \<longrightarrow>
      injectStatement h node s = Inr (push_modifier node s)) \<and>
   (tokenizer_state s \<in> {attributeName, afterAttributeName} \<longrightarrow>
      injectStatement h node s =
        (case beginAttributeValue h False s of
           Inl e \<Rightarrow> Inl e
         | Inr s1 \<Rightarrow>
             (case finishAttributeValue h s1 of
                Inl e \<Rightarrow> Inl e
              | Inr s2 \<Rightarrow> Inr (transitionTo beforeAttributeName (push_modifier node s2))))) \<and>
   (tokenizer_state s = afterAttributeValueQuoted \<longrightarrow>
      injectStatement h node s = Inr (transitionTo beforeAttributeName (push_modifier node s))) \<and>
   (tokenizer_state s = beforeAttributeValue \<longrightarrow>
      injectStatement h node s =
        (case beginAttributeValue h False s of
           Inl e \<Rightarrow> Inl e
         | Inr s1 \<Rightarrow>
             Inr (transitionTo attributeValueUnquoted (appendDynamicAttributeValuePart node s1)))) \<and>
   (tokenizer_state s \<in>
      {attributeValueDoubleQuoted, attributeValueSingleQuoted, attributeValueUnquoted} \<longrightarrow>
      injectStatement h node s = Inr (appendDynamicAttributeValuePart node s)) \<and>
   (tokenizer_state s \<notin>
      {tagOpen, tagName, beforeAttributeName, attributeName, afterAttributeName,
       afterAttributeValueQuoted, beforeAttributeValue, attributeValueDoubleQuoted,
       attributeValueSingleQuoted, attributeValueUnquoted} \<longrightarrow>
      injectStatement h node s = appendChild_currentElement node s)"
  by (cases "tokenizer_state s")
     (simp_all add: injectStatement_def inject_as_modifier_def inject_as_value_def)

theorem injection_rule_witness:
  "injectStatement example_hooks example_mustache (example_parser tagName) =
     Inl (SyntaxError tagname_message (on_line 1 5 12)) \<and>
   injectStatement example_hooks example_mustache (example_parser beforeAttributeName) =
     Inr (push_modifier example_mustache (example_parser beforeAttributeName)) \<and>
   injectStatement example_hooks example_mustache (example_parser attributeName) =
     Inr (push_modifier example_mustache (example_parser beforeAttributeName)) \<and>
   injectStatement example_hooks example_mustache (example_parser afterAttributeValueQuoted) =
     Inr (push_modifier example_mustache (example_parser beforeAttributeName)) \<and>
   injectStatement example_hooks example_mustache (example_parser beforeAttributeValue) =
     Inr (appendDynamicAttributeValuePart example_mustache
            (example_parser attributeValueUnquoted)) \<and>
   injectStatement example_hooks example_mustache (example_parser attributeValueDoubleQuoted) =
     Inr (appendDynamicAttributeValuePart example_mustache
            (example_parser attributeValueDoubleQuoted)) \<and>
   injectStatement example_hooks example_mustache (example_parser data) =
     Inr ((example_parser data)
            \<lparr>elementStack := [ASTv1_Template 0 [example_mustache] [] (on_line 1 0 0)]\<rparr>)"
  using injection_rule [of "example_parser tagName" example_hooks example_mustache]
        injection_rule [of "example_parser beforeAttributeName" example_hooks example_mustache]
        injection_rule [of "example_parser attributeName" example_hooks example_mustache]
        injection_rule [of "example_parser afterAttributeValueQuoted" example_hooks example_mustache]
        injection_rule [of "example_parser beforeAttributeValue" example_hooks example_mustache]
        injection_rule [of "example_parser attributeValueDoubleQuoted" example_hooks example_mustache]
        injection_rule [of "example_parser data" example_hooks example_mustache]
  by (simp add: example_parser_def example_hooks_def example_mustache_def transitionTo_def
        push_modifier_def appendDynamicAttributeValuePart_def finalizeTextPart_def
        appendChild_currentElement_def Let_def)

text \<open>
  C2, as the claim states it, fails: \<open>afterAttributeValueQuoted\<close> is none of the states the
  claim names, and there the node goes to the modifiers of the start tag (and the tokenizer
  to \<open>beforeAttributeName\<close>); it is not appended as a child of the current element.
\<close>

theorem injection_counterexample:
  "injectStatement example_hooks example_mustache (example_parser afterAttributeValueQuoted) =
     Inr ((example_parser beforeAttributeName)
            \<lparr>currentStartTag :=
               \<lparr>tag_name = ''div'', tag_attributes = [], modifiers = [example_mustache],
                comments = []\<rparr>\<rparr>) \<and>
   appendChild_currentElement example_mustache (example_parser afterAttributeValueQuoted) =
     Inr ((example_parser afterAttributeValueQuoted)
            \<lparr>elementStack := [ASTv1_Template 0 [example_mustache] [] (on_line 1 0 0)]\<rparr>) \<and>
   injectStatement example_hooks example_mustache (example_parser afterAttributeValueQuoted) \<noteq>
   appendChild_currentElement example_mustache (example_parser afterAttributeValueQuoted)"
  by (simp add: injectStatement_def example_parser_def transitionTo_def push_modifier_def
        appendChild_currentElement_def)

section \<open>Call nodes: properties\<close>

lemma literal_loc:
  "isHBSLiteral p \<Longrightarrow> \<exists>lit. acceptExpression p = Inr lit \<and> expr_loc lit = hbs_expr_loc p"
  by (cases p) simp_all

lemma acceptExpressions_map:
  "acceptExpressions ps = Inr args \<longleftrightarrow> map acceptExpression ps = map Inr args"
proof (induction ps arbitrary: args)
  case Nil
  then show ?case by auto
next
  case (Cons x xs)
  show ?case
  proof (cases "acceptExpression x")
    case (Inl e)
    then show ?thesis by (cases args) auto
  next
    case (Inr y)
    show ?thesis
    proof (cases "acceptExpressions xs")
      case (Inl e)
      with Inr Cons.IH show ?thesis by (cases args) auto
    next
      case ys: (Inr ys)
      with Inr Cons.IH [of ys] Cons.IH show ?thesis by (cases args) auto
    qed
  qed
qed

lemma acceptCallNodes_default:
  "acceptExpression p = Inr target \<Longrightarrow> map acceptExpression ps = map Inr args \<Longrightarrow>
   acceptCallNodes p ps None = Inr (target, args, default_hash_after target args)"
  by (simp add: acceptCallNodes.simps acceptExpressions_map [symmetric] default_hash_after_def
        call_end_def collapse_end_def spanFor_def)

lemma acceptCallNodes_parts:
  assumes "acceptCallNodes p ps None = Inr (target, args, hs)"
  shows "acceptExpression p = Inr target \<and> map acceptExpression ps = map Inr args \<and>
         hs = default_hash_after target args"
proof -
  from assms have a: "acceptExpression p = Inr target" and b: "acceptExpressions ps = Inr args"
    by (auto simp: acceptCallNodes.simps split: sum.splits)
  from b have m: "map acceptExpression ps = map Inr args" by (simp add: acceptExpressions_map)
  from acceptCallNodes_default [OF a m] assms show ?thesis using a m by simp
qed


lemma mustache_fields:
  assumes nl: "\<not> isHBSLiteral p"
    and m: "MustacheStatement_as d h p ps None esc st l s = Inr (Some n, s')"
  shows "\<exists>target args. acceptExpression p = Inr target \<and>
      map acceptExpression ps = map Inr args \<and> node_path n = Some target \<and>
      node_params n = args \<and> node_hash n = Some (default_hash_after target args)"
proof -
  from m nl obtain target args hs where
    a: "acceptCallNodes p ps None = Inr (target, args, hs)" and
    n: "n = mustache_node d target args hs (\<not> esc) (spanFor l) st"
    by (auto simp: MustacheStatement_as_def build_mustache_def split: if_splits sum.splits)
  from acceptCallNodes_parts [OF a] n show ?thesis
    by (auto simp: mustache_node_def)
qed

lemma literal_fields:
  assumes lt: "isHBSLiteral p"
    and m: "MustacheStatement_as d h p ps hs0 esc st l s = Inr (Some n, s')"
  shows "\<exists>lit. acceptExpression p = Inr lit \<and> node_path n = Some lit \<and>
      node_params n = [] \<and> node_hash n = Some (default_hash_after lit [])"
proof -
  from literal_loc [OF lt] obtain lit where
    lit: "acceptExpression p = Inr lit" "expr_loc lit = hbs_expr_loc p"
    by auto
  with m lt have "n = mustache_node d lit []
      (ASTv1_Hash [] (collapse_end (spanFor (hbs_expr_loc p)))) (\<not> esc) (spanFor l) st"
    by (auto simp: MustacheStatement_as_def build_mustache_def split: if_splits sum.splits)
  with lit show ?thesis
    by (auto simp: mustache_node_def default_hash_after_def collapse_end_def spanFor_def)
qed

lemma partial_fields:
  assumes "PartialStatement h p ps None st ind l s = Inr (Some n, s')"
  shows "\<exists>target args. acceptExpression p = Inr target \<and>
      map acceptExpression ps = map Inr args \<and> node_path n = Some target \<and>
      node_params n = args \<and> node_hash n = Some (default_hash_after target args)"
proof -
  from assms obtain target args hs where
    a: "acceptCallNodes p ps None = Inr (target, args, hs)" and
    n: "n = ASTv1_PartialStatement target args hs st ind (spanFor l)"
    by (auto simp: PartialStatement_def Let_def split: sum.splits)
  from acceptCallNodes_parts [OF a] n show ?thesis by auto
qed

lemma block_fields:
  assumes "BlockStatement_as d h p ps None b i s1 s2 s3 l s = Inr (Some n, s')"
  shows "\<exists>target args. acceptExpression p = Inr target \<and>
      map acceptExpression ps = map Inr args \<and> node_path n = Some target \<and>
      node_params n = args \<and> node_hash n = Some (default_hash_after target args)"
proof -
  from assms obtain target args hs defaultBlock elseBlock where
    a: "acceptCallNodes p ps None = Inr (target, args, hs)" and
    n: "n = block_node d target args hs defaultBlock elseBlock (spanFor l) s1 s2 s3"
    by (subst (asm) BlockStatement_as.simps)
       (auto simp: Let_def split: if_splits sum.splits option.splits)
  from acceptCallNodes_parts [OF a] n show ?thesis by (auto simp: block_node_def)
qed

lemma partial_block_fields:
  assumes "PartialBlockStatement h p ps None b s1 s2 l s = Inr (Some n, s')"
  shows "\<exists>target args. acceptExpression p = Inr target \<and>
      map acceptExpression ps = map Inr args \<and> node_path n = Some target \<and>
      node_params n = args \<and> node_hash n = Some (default_hash_after target args)"
proof -
  from assms obtain target args hs body where
    a: "acceptCallNodes p ps None = Inr (target, args, hs)" and
    n: "n = ASTv1_PartialBlockStatement target args hs body s1 s2 (spanFor l)"
    by (subst (asm) PartialBlockStatement.simps)
       (auto simp: Let_def split: sum.splits)
  from acceptCallNodes_parts [OF a] n show ?thesis by auto
qed

lemma call_fields:
  assumes "is_call_statement stmt" "statement_hash stmt = None" "\<not> literal_target stmt"
    and "acceptNode h stmt s = Inr (Some n, s')"
  shows "\<exists>p target args. statement_path stmt = Some p \<and> acceptExpression p = Inr target \<and>
      map acceptExpression (statement_params stmt) = map Inr args \<and>
      node_path n = Some target \<and> node_params n = args \<and>
      node_hash n = Some (default_hash_after target args)"
  using assms
  by (cases stmt)
     (auto simp: MustacheStatement_def Decorator_def
        dest: mustache_fields partial_fields block_fields partial_block_fields)

lemma call_literal_fields:
  assumes "literal_target stmt" "acceptNode h stmt s = Inr (Some n, s')"
  shows "\<exists>p lit. statement_path stmt = Some p \<and> acceptExpression p = Inr lit \<and>
      node_path n = Some lit \<and> node_params n = [] \<and>
      node_hash n = Some (default_hash_after lit [])"
  using assms
  by (cases stmt) (auto simp: MustacheStatement_def Decorator_def dest: literal_fields)

lemma call_produces:
  assumes "is_call_statement stmt" "tokenizer_state s \<noteq> comment"
  shows "acceptNode h stmt s \<noteq> Inr (None, s')"
  using assms
  by (cases stmt)
     (auto simp: MustacheStatement_def Decorator_def MustacheStatement_as_def
        PartialStatement_def BlockStatement_as.simps PartialBlockStatement.simps Let_def
        split: sum.splits option.splits)

lemma sub_fields:
  assumes "acceptExpression (HBS_SubExpression c ps None l) = Inr e"
  shows "\<exists>target args. acceptExpression c = Inr target \<and>
      map acceptExpression ps = map Inr args \<and>
      e = ASTv1_SubExpression target args (default_hash_after target args) (spanFor l)"
proof -
  from assms obtain target args hs where
    a: "acceptCallNodes c ps None = Inr (target, args, hs)" and
    e: "e = ASTv1_SubExpression target args hs (spanFor l)"
    by (auto split: sum.splits)
  from acceptCallNodes_parts [OF a] e show ?thesis by auto
qed

text \<open>
  C5, as the code has it. A call resolved by \<^verbatim>\<open>acceptCallNodes\<close> with no hash in the syntax
  tree (a block, a decorator block, a partial, a partial block, a sub-expression, and a
  mustache or decorator whose call target is not a literal): the call target of the node is
  the translation of the call path of the syntax tree, its positional parameters are the
  translations of the positional parameters of the syntax tree, in their order, and its
  hash has no pairs and is the zero-width point at the end of the last of them, or at the
  end of the call target when the syntax tree has no positional parameter. A mustache or
  decorator whose call target is a literal: the node has the translated literal as its call
  target and no positional parameter, whatever the syntax tree has, and its hash has no
  pairs and is the zero-width point at the end of the literal. Outside a comment the visit
  of a call statement never ends without a node; the visit of a mustache whose call target
  is not a literal, and that of a partial, whose call path and positional parameters
  translate, build the node so described and inject it.
\<close>

theorem hash_zero_width_default:
  "(acceptExpression p = Inr target \<and> map acceptExpression ps = map Inr args \<longrightarrow>
      acceptCallNodes p ps None = Inr (target, args, default_hash_after target args)) \<and>
   (is_call_statement stmt \<and> statement_hash stmt = None \<and> \<not> literal_target stmt \<and>
    acceptNode h stmt s = Inr (Some n, s') \<longrightarrow>
      (\<exists>q t as. statement_path stmt = Some q \<and> acceptExpression q = Inr t \<and>
         map acceptExpression (statement_params stmt) = map Inr as \<and>
         node_path n = Some t \<and> node_params n = as \<and>
         node_hash n = Some (default_hash_after t as))) \<and>
   (literal_target stmt \<and> acceptNode h stmt s = Inr (Some n, s') \<longrightarrow>
      (\<exists>q lit. statement_path stmt = Some q \<and> acceptExpression q = Inr lit \<and>
         node_path n = Some lit \<and> node_params n = [] \<and>
         node_hash n = Some (default_hash_after lit []))) \<and>
   (is_call_statement stmt \<and> tokenizer_state s \<noteq> comment \<longrightarrow>
      acceptNode h stmt s \<noteq> Inr (None, s')) \<and>
   (acceptExpression (HBS_SubExpression p ps None l) = Inr e \<longrightarrow>
      (\<exists>t as. acceptExpression p = Inr t \<and> map acceptExpression ps = map Inr as \<and>
         e = ASTv1_SubExpression t as (default_hash_after t as) (spanFor l))) \<and>
   (\<not> isHBSLiteral p \<and> tokenizer_state s \<noteq> comment \<and> acceptExpression p = Inr target \<and>
    map acceptExpression ps = map Inr args \<longrightarrow>
      acceptNode h (HBS_MustacheStatement p ps None escaped strip l) s =
        (case injectStatement h
                (ASTv1_MustacheStatement target args (default_hash_after target args)
                   (\<not> escaped) (spanFor l) strip) s of
           Inl e \<Rightarrow> Inl e
         | Inr s1 \<Rightarrow>
             Inr (Some (ASTv1_MustacheStatement target args (default_hash_after target args)
                          (\<not> escaped) (spanFor l) strip), s1))) \<and>
   (acceptExpression p = Inr target \<and> map acceptExpression ps = map Inr args \<longrightarrow>
      acceptNode h (HBS_PartialStatement p ps None strip indent l) s =
        (case injectStatement h
                (ASTv1_PartialStatement target args (default_hash_after target args)
                   strip indent (spanFor l)) s of
           Inl e \<Rightarrow> Inl e
         | Inr s1 \<Rightarrow>
             Inr (Some (ASTv1_PartialStatement target args (default_hash_after target args)
                          strip indent (spanFor l)), s1)))"
proof (intro conjI impI)
  assume "acceptExpression p = Inr target \<and> map acceptExpression ps = map Inr args"
  then show "acceptCallNodes p ps None = Inr (target, args, default_hash_after target args)"
    by (simp add: acceptCallNodes_default)
next
  assume "is_call_statement stmt \<and> statement_hash stmt = None \<and> \<not> literal_target stmt \<and>
    acceptNode h stmt s = Inr (Some n, s')"
  then show "\<exists>q t as. statement_path stmt = Some q \<and> acceptExpression q = Inr t \<and>
         map acceptExpression (statement_params stmt) = map Inr as \<and>
         node_path n = Some t \<and> node_params n = as \<and>
         node_hash n = Some (default_hash_after t as)"
    using call_fields by blast
next
  assume "literal_target stmt \<and> acceptNode h stmt s = Inr (Some n, s')"
  then show "\<exists>q lit. statement_path stmt = Some q \<and> acceptExpression q = Inr lit \<and>
         node_path n = Some lit \<and> node_params n = [] \<and>
         node_hash n = Some (default_hash_after lit [])"
    using call_literal_fields by blast
next
  assume "is_call_statement stmt \<and> tokenizer_state s \<noteq> comment"
  then show "acceptNode h stmt s \<noteq> Inr (None, s')"
    using call_produces by blast
next
  assume "acceptExpression (HBS_SubExpression p ps None l) = Inr e"
  then show "\<exists>t as. acceptExpression p = Inr t \<and> map acceptExpression ps = map Inr as \<and>
         e = ASTv1_SubExpression t as (default_hash_after t as) (spanFor l)"
    by (rule sub_fields)
next
  assume "\<not> isHBSLiteral p \<and> tokenizer_state s \<noteq> comment \<and> acceptExpression p = Inr target \<and>
    map acceptExpression ps = map Inr args"
  then show "acceptNode h (HBS_MustacheStatement p ps None escaped strip l) s =
        (case injectStatement h
                (ASTv1_MustacheStatement target args (default_hash_after target args)
                   (\<not> escaped) (spanFor l) strip) s of
           Inl e \<Rightarrow> Inl e
         | Inr s1 \<Rightarrow>
             Inr (Some (ASTv1_MustacheStatement target args (default_hash_after target args)
                          (\<not> escaped) (spanFor l) strip), s1))"
    by (simp add: MustacheStatement_def MustacheStatement_as_def build_mustache_def
          mustache_node_def acceptCallNodes_default)
next
  assume "acceptExpression p = Inr target \<and> map acceptExpression ps = map Inr args"
  then show "acceptNode h (HBS_PartialStatement p ps None strip indent l) s =
        (case injectStatement h
                (ASTv1_PartialStatement target args (default_hash_after target args)
                   strip indent (spanFor l)) s of
           Inl e \<Rightarrow> Inl e
         | Inr s1 \<Rightarrow>
             Inr (Some (ASTv1_PartialStatement target args (default_hash_after target args)
                          strip indent (spanFor l)), s1))"
    by (simp add: PartialStatement_def Let_def acceptCallNodes_default)
qed

theorem hash_zero_width_default_witness:
  "acceptNode example_hooks helper_call (example_parser data) =
     Inr (Some helper_mustache,
          (example_parser data)
            \<lparr>elementStack := [ASTv1_Template 0 [helper_mustache] [] (on_line 1 0 0)]\<rparr>) \<and>
   node_params helper_mustache =
     [ASTv1_PathExpression ''arg1'' (VarHead (Some ''arg1'') (on_line 1 9 13)) (Some [])
        (on_line 1 9 13)] \<and>
   node_hash helper_mustache = Some (ASTv1_Hash [] (on_line 1 13 13)) \<and>
   acceptNode example_hooks helper_partial (example_parser data) =
     Inr (Some helper_partial_node,
          (example_parser data)
            \<lparr>elementStack := [ASTv1_Template 0 [helper_partial_node] [] (on_line 1 0 0)]\<rparr>) \<and>
   node_params helper_partial_node =
     [ASTv1_PathExpression ''arg1'' (VarHead (Some ''arg1'') (on_line 1 11 15)) (Some [])
        (on_line 1 11 15)] \<and>
   node_hash helper_partial_node = Some (ASTv1_Hash [] (on_line 1 15 15)) \<and>
   acceptExpression
     (HBS_SubExpression (HBS_PathExpression False [''helper''] ''helper'' (on_line 1 2 8))
        [] None (on_line 1 1 9)) =
     Inr (ASTv1_SubExpression
            (ASTv1_PathExpression ''helper'' (VarHead (Some ''helper'') (on_line 1 2 8))
               (Some []) (on_line 1 2 8))
            [] (ASTv1_Hash [] (on_line 1 8 8)) (on_line 1 1 9)) \<and>
   acceptNode example_hooks literal_call (example_parser data) =
     Inr (Some literal_call_node,
          (example_parser data)
            \<lparr>elementStack := [ASTv1_Template 0 [literal_call_node] [] (on_line 1 0 0)]\<rparr>) \<and>
   node_params literal_call_node = [] \<and>
   node_hash literal_call_node = Some (ASTv1_Hash [] (on_line 1 7 7))"
  using hash_zero_width_default
          [where stmt = helper_call and h = example_hooks and s = "example_parser data"
             and n = helper_mustache
             and s' = "(example_parser data)
               \<lparr>elementStack := [ASTv1_Template 0 [helper_mustache] [] (on_line 1 0 0)]\<rparr>"
             and p = "HBS_PathExpression False [''helper''] ''helper'' (on_line 1 2 8)"
             and ps = "[]"
             and target = "ASTv1_PathExpression ''helper''
                 (VarHead (Some ''helper'') (on_line 1 2 8)) (Some []) (on_line 1 2 8)"
             and args = "[]" and l = "on_line 1 1 9"
             and e = "ASTv1_SubExpression
                 (ASTv1_PathExpression ''helper'' (VarHead (Some ''helper'') (on_line 1 2 8))
                    (Some []) (on_line 1 2 8))
                 [] (ASTv1_Hash [] (on_line 1 8 8)) (on_line 1 1 9)"
             and escaped = True and strip = NO_STRIP and indent = "[]"]
        hash_zero_width_default
          [where stmt = literal_call and h = example_hooks and s = "example_parser data"
             and n = literal_call_node
             and s' = "(example_parser data)
               \<lparr>elementStack := [ASTv1_Template 0 [literal_call_node] [] (on_line 1 0 0)]\<rparr>"
             and p = "HBS_PathExpression False [''helper''] ''helper'' (on_line 1 4 10)"
             and ps = "[HBS_PathExpression False [''arg1''] ''arg1'' (on_line 1 11 15)]"
             and target = "ASTv1_PathExpression ''helper''
                 (VarHead (Some ''helper'') (on_line 1 4 10)) (Some []) (on_line 1 4 10)"
             and args = "[ASTv1_PathExpression ''arg1''
                 (VarHead (Some ''arg1'') (on_line 1 11 15)) (Some []) (on_line 1 11 15)]"
             and l = "on_line 1 0 17" and strip = NO_STRIP and indent = "[]"]
  by (simp add: helper_call_def helper_mustache_def helper_partial_def helper_partial_node_def
        literal_call_def literal_call_node_def default_hash_after_def PartialStatement_def
        MustacheStatement_def MustacheStatement_as_def build_mustache_def mustache_node_def
        acceptCallNodes.simps PathExpression_def matches_this_def path_parts_def head_loc_def
        call_end_def collapse_end_def spanFor_def injectStatement_def
        appendChild_currentElement_def example_parser_def on_line_def)

text \<open>
  C5, as the claim states it, fails: the mustache \<open>{{"foo" bar}}\<close> has no hash and one
  positional parameter, \<open>bar\<close>, which ends at column 11; the node has no positional
  parameter, and its hash is the point at column 7, the end of the literal, not the point
  after the last positional parameter.
\<close>

theorem hash_default_counterexample:
  "acceptNode example_hooks literal_call (example_parser data) =
     Inr (Some (ASTv1_MustacheStatement (ASTv1_StringLiteral ''foo'' (on_line 1 2 7)) []
                  (ASTv1_Hash [] (on_line 1 7 7)) False (on_line 1 0 13) NO_STRIP),
          (example_parser data)
            \<lparr>elementStack :=
               [ASTv1_Template 0
                  [ASTv1_MustacheStatement (ASTv1_StringLiteral ''foo'' (on_line 1 2 7)) []
                     (ASTv1_Hash [] (on_line 1 7 7)) False (on_line 1 0 13) NO_STRIP]
                  [] (on_line 1 0 0)]\<rparr>)"
  by (simp add: literal_call_def MustacheStatement_def MustacheStatement_as_def
        build_mustache_def mustache_node_def collapse_end_def spanFor_def injectStatement_def
        appendChild_currentElement_def example_parser_def on_line_def)

section \<open>Literal mustaches: properties\<close>

lemma build_mustache_kind:
  "build_mustache d p ps hs esc st l = Inr n \<Longrightarrow> \<not> is_ContentMustache n"
  by (auto simp: build_mustache_def mustache_node_def split: if_splits sum.splits)

lemma acceptNode_kind:
  assumes "acceptNode h stmt s = Inr (Some n, s')"
  shows "\<not> is_ContentMustache n"
proof (cases stmt)
  case (HBS_MustacheStatement p ps hs esc st l)
  with assms show ?thesis
    by (auto simp: MustacheStatement_def MustacheStatement_as_def
          split: if_splits sum.splits dest: build_mustache_kind)
next
  case (HBS_Decorator p ps hs esc st l)
  with assms show ?thesis
    by (auto simp: Decorator_def MustacheStatement_as_def
          split: if_splits sum.splits dest: build_mustache_kind)
next
  case (HBS_BlockStatement p ps hs b i s1 s2 s3 l)
  with assms show ?thesis
    by (auto simp: BlockStatement_as.simps block_node_def Let_def
          split: if_splits sum.splits option.splits)
next
  case (HBS_DecoratorBlock p ps hs b i s1 s2 s3 l)
  with assms show ?thesis
    by (auto simp: BlockStatement_as.simps block_node_def Let_def
          split: if_splits sum.splits option.splits)
next
  case (HBS_PartialStatement p ps hs st ind l)
  with assms show ?thesis
    by (auto simp: PartialStatement_def Let_def split: sum.splits)
next
  case (HBS_PartialBlockStatement p ps hs b s1 s2 l)
  with assms show ?thesis
    by (auto simp: PartialBlockStatement.simps Let_def split: sum.splits)
next
  case (HBS_ContentStatement v original l)
  with assms show ?thesis
    by (auto split: sum.splits)
next
  case (HBS_CommentStatement v l)
  with assms show ?thesis
    by (auto simp: CommentStatement_def Let_def split: if_splits sum.splits TokenizerState.splits)
qed

text \<open>
  C6, as the code has it. For a mustache whose call target is a literal, outside a comment,
  the translator builds a \<open>MustacheStatement\<close> whose call target is the translated literal
  (with the literal's own location), with no positional parameter and with a hash that has
  no pairs and is collapsed to the end of the literal's span; that node is injected and
  returned. No visit of the translator ever returns a \<open>ContentMustache\<close>. The builder's
  \<^verbatim>\<open>mustache\<close> function, called with a call target only, writes the description of a
  \<open>ContentMustache\<close> with that target as its value.
\<close>

theorem literal_mustache:
  "(isHBSLiteral rawPath \<and> tokenizer_state s \<noteq> comment \<longrightarrow>
      (\<exists>lit. acceptExpression rawPath = Inr lit \<and> expr_loc lit = hbs_expr_loc rawPath \<and>
         MustacheStatement h rawPath rawParams rawHash escaped strip l s =
           (case injectStatement h
                   (ASTv1_MustacheStatement lit []
                      (ASTv1_Hash [] (collapse_end (spanFor (hbs_expr_loc rawPath))))
                      (\<not> escaped) (spanFor l) strip) s of
              Inl e \<Rightarrow> Inl e
            | Inr s1 \<Rightarrow>
                Inr (Some (ASTv1_MustacheStatement lit []
                             (ASTv1_Hash [] (collapse_end (spanFor (hbs_expr_loc rawPath))))
                             (\<not> escaped) (spanFor l) strip), s1)))) \<and>
   (acceptNode h stmt s = Inr (Some n, s') \<longrightarrow> \<not> is_ContentMustache n) \<and>
   mustache call None None = B_ContentMustache call"
proof (intro conjI impI)
  assume a: "isHBSLiteral rawPath \<and> tokenizer_state s \<noteq> comment"
  then obtain lit where
    lit: "acceptExpression rawPath = Inr lit" "expr_loc lit = hbs_expr_loc rawPath"
    using literal_loc by blast
  with a show "\<exists>lit. acceptExpression rawPath = Inr lit \<and> expr_loc lit = hbs_expr_loc rawPath \<and>
         MustacheStatement h rawPath rawParams rawHash escaped strip l s =
           (case injectStatement h
                   (ASTv1_MustacheStatement lit []
                      (ASTv1_Hash [] (collapse_end (spanFor (hbs_expr_loc rawPath))))
                      (\<not> escaped) (spanFor l) strip) s of
              Inl e \<Rightarrow> Inl e
            | Inr s1 \<Rightarrow>
                Inr (Some (ASTv1_MustacheStatement lit []
                             (ASTv1_Hash [] (collapse_end (spanFor (hbs_expr_loc rawPath))))
                             (\<not> escaped) (spanFor l) strip), s1))"
    by (simp add: MustacheStatement_def MustacheStatement_as_def build_mustache_def
          mustache_node_def)
next
  assume "acceptNode h stmt s = Inr (Some n, s')"
  then show "\<not> is_ContentMustache n" by (rule acceptNode_kind)
next
  show "mustache call None None = B_ContentMustache call"
    by (simp add: mustache_def)
qed

theorem literal_mustache_witness:
  "MustacheStatement example_hooks (HBS_StringLiteral ''a string'' (on_line 1 2 12)) [] None True
     NO_STRIP (on_line 1 0 14) (example_parser data) =
     Inr (Some string_mustache,
          (example_parser data)
            \<lparr>elementStack := [ASTv1_Template 0 [string_mustache] [] (on_line 1 0 0)]\<rparr>)"
  using literal_mustache [of "HBS_StringLiteral ''a string'' (on_line 1 2 12)"
          "example_parser data" example_hooks "[]" None True NO_STRIP "on_line 1 0 14"]
  by (simp add: injectStatement_def appendChild_currentElement_def example_parser_def
        string_mustache_def collapse_end_def spanFor_def on_line_def)

text \<open>
  C6, as the claim states it, fails: the node the translator produces for \<open>{{"a string"}}\<close>
  is a \<open>MustacheStatement\<close> with the literal as its call target, not a \<open>ContentMustache\<close>
  with the literal as its value.
\<close>

theorem literal_mustache_counterexample:
  "MustacheStatement example_hooks (HBS_StringLiteral ''a string'' (on_line 1 2 12)) [] None True
     NO_STRIP (on_line 1 0 14) (example_parser data) =
     Inr (Some string_mustache,
          (example_parser data)
            \<lparr>elementStack := [ASTv1_Template 0 [string_mustache] [] (on_line 1 0 0)]\<rparr>) \<and>
   \<not> is_ContentMustache string_mustache"
  by (simp add: MustacheStatement_def MustacheStatement_as_def build_mustache_def
        mustache_node_def injectStatement_def appendChild_currentElement_def example_parser_def
        string_mustache_def collapse_end_def spanFor_def on_line_def)

section \<open>Programs and the element stack: properties\<close>

lemma fold_visit_each_Inl: "fold (visit_each h) xs (Inl e) = Inl e"
  by (induction xs) (simp_all add: visit_each_def)

lemma acceptNodes_in_order: "acceptNodes h xs s = visit_in_order h xs s"
  unfolding visit_in_order_def
proof (induction xs arbitrary: s)
  case Nil
  then show ?case by simp
next
  case (Cons x xs)
  show ?case
  proof (cases "acceptNode h x s")
    case (Inl e)
    then have "visit_each h x (Inr s) = Inl e" by (simp add: visit_each_def)
    with Inl show ?thesis by (simp add: fold_visit_each_Inl)
  next
    case (Inr r)
    obtain n s1 where "r = (n, s1)" by (cases r)
    with Inr Cons.IH [of s1] show ?thesis by (simp add: visit_each_def)
  qed
qed

text \<open>
  C1, as the code has it. For a \<^verbatim>\<open>Program\<close> with a location, the node of the body is a
  template at the top level and a block otherwise, and it is put on top of the element
  stack. With an empty body it is taken off at once and returned, and no child is visited.
  Otherwise every child is visited, in the order of the body, the first of them with the
  node on top of the stack; an error of a child ends the visit; after the last child the
  top of the stack is taken off, and it must be the node that was put there: if it is, it is
  returned, and if it is another node the syntax error \<open>Unclosed element\<close> is raised with
  the tag and at the span of the node taken off. So whenever the visits of the children
  end with an element on top of the stack, the visit of the program raises that error,
  naming the element's tag.
\<close>

theorem program_balance:
  "(let node = (if elementStack s = [] then ASTv1_Template (next_id s) [] bp (spanFor l)
                else ASTv1_Block (next_id s) [] bp ch (spanFor l));
        pushed = s\<lparr>elementStack := node # elementStack s, next_id := Suc (next_id s)\<rparr>
    in (body = [] \<longrightarrow>
          Program h (HBS_Program body bp ch (Some l)) s =
            Inr (node, s\<lparr>next_id := Suc (next_id s)\<rparr>)) \<and>
       (body \<noteq> [] \<longrightarrow>
          Program h (HBS_Program body bp ch (Some l)) s =
            (case visit_in_order h body pushed of
               Inl e \<Rightarrow> Inl e
             | Inr s2 \<Rightarrow>
                 (case elementStack s2 of
                    [] \<Rightarrow> Inl TypeError
                  | popped # rest \<Rightarrow>
                      if node_id popped = node_id node
                      then Inr (popped, s2\<lparr>elementStack := rest\<rparr>)
                      else Inl (SyntaxError (''Unclosed element `'' @ tag_text popped @ ''`'')
                                  (node_loc popped))))) \<and>
       (body \<noteq> [] \<and> visit_in_order h body pushed = Inr s2 \<and>
        elementStack s2 = ASTv1_ElementNode i t attrs mods cs children el # rest \<longrightarrow>
          Program h (HBS_Program body bp ch (Some l)) s =
            Inl (SyntaxError (''Unclosed element `'' @ t @ ''`'') el)))"
  by (auto simp: Let_def acceptNodes_in_order push_element_def pop_element_def
        pop_and_check_def program_node_def isTopLevel_def unclosed_message_def
        split: sum.splits list.splits)

theorem program_balance_witness:
  "Program example_hooks (HBS_Program two_contents [] False (Some (on_line 1 0 8)))
     top_level_parser =
     Inl (SyntaxError ''Unclosed element `div`'' (on_line 1 3 8)) \<and>
   Program example_hooks (HBS_Program [] [] False (Some (on_line 1 0 0))) top_level_parser =
     Inr (ASTv1_Template 1 [] [] (on_line 1 0 0), top_level_parser\<lparr>next_id := 2\<rparr>)"
  using program_balance [where s = top_level_parser and bp = "[]" and ch = False
          and l = "on_line 1 0 8" and h = example_hooks and body = two_contents
          and ?s2.0 = "top_level_parser
             \<lparr>tokenizer_column := 3,
              elementStack :=
                [ASTv1_ElementNode 2 ''div'' [] [] [] [] (on_line 1 3 8),
                 ASTv1_Template 1 [] [] (on_line 1 0 8)],
              next_id := 3\<rparr>"
          and i = 2 and t = "''div''" and attrs = "[]" and mods = "[]" and cs = "[]"
          and children = "[]" and el = "on_line 1 3 8"
          and rest = "[ASTv1_Template 1 [] [] (on_line 1 0 8)]"]
        program_balance [where s = top_level_parser and bp = "[]" and ch = False
          and l = "on_line 1 0 0" and h = example_hooks and body = "[]"]
  by (simp add: Let_def two_contents_def top_level_parser_def visit_in_order_def visit_each_def
        example_parser_def example_hooks_def example_tokenizePart_def
        ContentStatement_def updateTokenizerLocation_def offsets_of_prefix newline_count_def
        last_line_def spanFor_def on_line_def)

text \<open>
  C1, as the claim states it, fails in its last part: the template \<open><div\<close> has a tag that
  nothing closes, and the start tag is not finished when the input ends, so that no element
  reaches the element stack; the node taken off is the template, and the visit of the
  program returns it and raises nothing.
\<close>

theorem unclosed_tag_counterexample:
  "Program example_hooks
     (HBS_Program [HBS_ContentStatement ''<div'' ''<div'' (on_line 1 0 4)] [] False
        (Some (on_line 1 0 4)))
     top_level_parser =
   Inr (ASTv1_Template 1 [] [] (on_line 1 0 4),
        top_level_parser\<lparr>tokenizer_state := tagName, next_id := 2\<rparr>)"
  by (simp add: Let_def top_level_parser_def program_node_def isTopLevel_def push_element_def
        pop_and_check_def example_parser_def example_hooks_def example_tokenizePart_def
        ContentStatement_def updateTokenizerLocation_def offsets_of_prefix newline_count_def
        last_line_def spanFor_def on_line_def)

section \<open>The AST builder: properties\<close>

subsection \<open>The cursor and the spans\<close>

lemma consume_span:
  "span_start (fst (consume chars pos)) = pos \<and>
   span_end (fst (consume chars pos)) - span_start (fst (consume chars pos)) = length chars \<and>
   snd (consume chars pos) = span_end (fst (consume chars pos))"
  by (simp add: consume_def)

lemma spanned_span:
  "cb pos = Inr (next, pos1) \<Longrightarrow>
   spanned cb pos = next \<lparr>span_start = pos, span_end = pos1\<rparr> pos1"
  by (simp add: spanned_def)

lemma spanned_node:
  "cb pos = Inr (node_of mk, pos1) \<Longrightarrow>
   spanned cb pos = Inr (mk \<lparr>span_start = pos, span_end = pos1\<rparr>, pos1)"
  by (simp add: spanned_def node_of_def)

lemma traverse_mono:
  assumes "\<And>x p y p'. x \<in> set xs \<Longrightarrow> f x p = Inr (y, p') \<Longrightarrow> p \<le> p'"
    and "traverse f xs pos = Inr (ys, pos')"
  shows "pos \<le> pos'"
  using assms
proof (induction xs arbitrary: pos ys)
  case Nil
  then show ?case by simp
next
  case (Cons x xs)
  from Cons.prems(2) obtain y p1 ys1 where
    fx: "f x pos = Inr (y, p1)" and tr: "traverse f xs p1 = Inr (ys1, pos')"
    by (auto split: sum.splits)
  have "pos \<le> p1" using Cons.prems(1) [of x pos y p1] fx by simp
  moreover have "p1 \<le> pos'" using Cons.IH [of p1 ys1] Cons.prems(1) tr by auto
  ultimately show ?case by simp
qed

lemma var_mono:
  "AstBuilder_var item pos = Inr (n, pos') \<Longrightarrow> pos \<le> pos'"
  by (auto simp: AstBuilder_var_def spanned_def node_of_def consume_def split: Head.splits)

lemma segment_mono:
  "AstBuilder_segment item pos = Inr (n, pos') \<Longrightarrow> pos \<le> pos'"
  by (auto simp: AstBuilder_segment_def spanned_def node_of_def consume_def)

lemma segments_mono:
  "AstBuilder_segments items pos = Inr (n, pos') \<Longrightarrow> pos \<le> pos'"
  by (auto simp: AstBuilder_segments_def split: option.splits sum.splits
        intro: traverse_mono [where f = AstBuilder_segment] segment_mono)

text \<open>
  The span of a path, and of any expression, runs from the cursor before it is built to the
  cursor after: its length is the number of characters consumed for it.
\<close>

lemma path_cursor:
  assumes "AstBuilder_path e pos = Inr (n, pos')"
  shows "expr_span n = \<lparr>span_start = pos, span_end = pos'\<rparr> \<and> pos \<le> pos'"
proof -
  from assms obtain hd1 p1 tl1 where
    v: "AstBuilder_var (b_head e) pos = Inr (hd1, p1)" and
    sg: "AstBuilder_segments (b_tail e) p1 = Inr (tl1, pos')" and
    n: "n = hbs_PathExpression \<lparr>span_start = pos, span_end = pos'\<rparr> hd1 tl1"
    by (auto simp: AstBuilder_path_def spanned_def node_of_def split: sum.splits)
  from var_mono [OF v] segments_mono [OF sg] n show ?thesis by simp
qed

lemma expr_cursor:
  assumes "AstBuilder_expr e pos = Inr (n, pos')"
  shows "expr_span n = \<lparr>span_start = pos, span_end = pos'\<rparr> \<and> pos \<le> pos'"
  using assms
  by (cases e) (auto simp: spanned_def node_of_def consume_def dest: path_cursor)

lemma exprs_mono:
  "AstBuilder_exprs es pos = Inr (ns, pos') \<Longrightarrow> pos \<le> pos'"
  unfolding AstBuilder_exprs_def
  by (rule traverse_mono [where f = AstBuilder_expr]) (auto dest: expr_cursor)

text \<open>
  A hash pair is the exception: its span is the zero-width point at the cursor before the
  pair, and its value's span runs from there to the cursor after the pair.
\<close>

lemma hashPair_cursor:
  assumes "AstBuilder_hashPair pr pos = Inr (n, pos')"
  shows "pair_span n = \<lparr>span_start = pos, span_end = pos\<rparr> \<and>
         expr_span (pair_value n) = \<lparr>span_start = pos, span_end = pos'\<rparr> \<and> pos \<le> pos'"
  using assms
  by (cases pr) (auto simp: spanned_def split: sum.splits dest: expr_cursor)

lemma hash_mono:
  assumes a: "AstBuilder_hash hs pos = Inr (n, pos')"
  shows "pos \<le> pos'"
proof (cases hs)
  case None
  with a show ?thesis by simp
next
  case (Some hh)
  obtain pairs where hh: "hh = B_Hash pairs" by (cases hh)
  with a Some obtain out where "traverse AstBuilder_hashPair pairs pos = Inr (out, pos')"
    by (auto simp: spanned_def node_of_def split: sum.splits)
  then show ?thesis
    by (rule traverse_mono [where f = AstBuilder_hashPair, rotated]) (auto dest: hashPair_cursor)
qed

lemma program_start_mono:
  "pos \<le> (case blockParams of
            Some names \<Rightarrow>
              snd (consume ''|}}'' (snd (consume (join '' '' names) (snd (consume '' as |'' pos)))))
          | None \<Rightarrow> snd (consume ''}}'' pos))"
  by (simp add: consume_def split: option.splits)

text \<open>
  The span of a statement runs from the cursor before its visit to the cursor after; the
  cursor never moves back.
\<close>

lemma statements_cursor:
  "AstBuilder_visit st pos = Inr (n, pos') \<Longrightarrow>
     statement_span n = \<lparr>span_start = pos, span_end = pos'\<rparr> \<and> pos \<le> pos'"
  "AstBuilder_visits sts pos = Inr (ns, pos') \<Longrightarrow> pos \<le> pos'"
  "AstBuilder_program pr pos = Inr (m, pos') \<Longrightarrow>
     span_end (program_span m) = pos' \<and> pos \<le> span_start (program_span m) \<and>
     span_start (program_span m) \<le> pos'"
proof (induction st pos and sts pos and pr pos arbitrary: n pos' and ns pos' and m pos'
    rule: AstBuilder_visit_AstBuilder_visits_AstBuilder_program.induct)
  case (1 v pos)
  then show ?case by (auto simp: consume_def)
next
  case (2 v pos)
  then show ?case
    by (auto simp: spanned_def node_of_def consume_def split: sum.splits dest!: expr_cursor)
next
  case (3 call params hs program inverseBlock pos)
  have "\<exists>target p1 ps1 p2 h1 p3 prog1 p4 inv1 p5.
    AstBuilder_path call (snd (consume ''{{#'' pos)) = Inr (target, p1) \<and>
    (if length params \<noteq> 0 then AstBuilder_exprs params (snd (consume '' '' p1))
          else Inr ([], p1)) = Inr (ps1, p2) \<and>
    (if hs \<noteq> None then AstBuilder_hash hs (snd (consume '' '' p2))
          else Inr (None, p2)) = Inr (h1, p3) \<and>
    AstBuilder_program program p3 = Inr (prog1, p4) \<and>
    (case inverseBlock of
            None \<Rightarrow> Inr (None, p4)
          | Some inverseProgram \<Rightarrow>
              (case AstBuilder_program inverseProgram (snd (consume ''{{else}}'' p4)) of
                 Inl e \<Rightarrow> Inl e
               | Inr (i, q) \<Rightarrow> Inr (Some i, q))) = Inr (inv1, p5) \<and>
    statement_span n = \<lparr>span_start = pos, span_end = pos'\<rparr> \<and>
    pos' = snd (consume ''}}'' (snd (consume (pathString call) (snd (consume ''{{/'' p5)))))"
    using "3.prems"
    by (simp add: spanned_def split: sum.split_asm prod.split_asm split del: if_split)
       (auto simp: node_of_def split del: if_split)
  then obtain target p1 ps1 p2 h1 p3 prog1 p4 inv1 p5 where
    a1: "AstBuilder_path call (snd (consume ''{{#'' pos)) = Inr (target, p1)" and
    a2: "(if length params \<noteq> 0 then AstBuilder_exprs params (snd (consume '' '' p1))
          else Inr ([], p1)) = Inr (ps1, p2)" and
    a3: "(if hs \<noteq> None then AstBuilder_hash hs (snd (consume '' '' p2))
          else Inr (None, p2)) = Inr (h1, p3)" and
    a4: "AstBuilder_program program p3 = Inr (prog1, p4)" and
    a5: "(case inverseBlock of
            None \<Rightarrow> Inr (None, p4)
          | Some inverseProgram \<Rightarrow>
              (case AstBuilder_program inverseProgram (snd (consume ''{{else}}'' p4)) of
                 Inl e \<Rightarrow> Inl e
               | Inr (i, q) \<Rightarrow> Inr (Some i, q))) = Inr (inv1, p5)" and
    n: "statement_span n = \<lparr>span_start = pos, span_end = pos'\<rparr>" and
    e: "pos' = snd (consume ''}}'' (snd (consume (pathString call) (snd (consume ''{{/'' p5)))))"
    by blast
  have "pos \<le> p1" using path_cursor [OF a1] by (simp add: consume_def)
  moreover have "p1 \<le> p2"
    using a2 by (auto simp: consume_def split: if_splits dest: exprs_mono)
  moreover have "p2 \<le> p3"
    using a3 by (auto simp: consume_def split: if_splits dest: hash_mono)
  moreover have "p3 \<le> p4"
    using "3.IH"(1) [OF refl a1 refl a2 refl a3 refl a4] by simp
  moreover have "p4 \<le> p5"
  proof (cases inverseBlock)
    case None
    with a5 show ?thesis by simp
  next
    case (Some ip)
    with a5 obtain i where
      a6: "AstBuilder_program ip (snd (consume ''{{else}}'' p4)) = Inr (i, p5)"
      by (auto split: sum.splits)
    from "3.IH"(2) [OF refl a1 refl a2 refl a3 refl a4 refl Some a6]
    show ?thesis by (simp add: consume_def)
  qed
  moreover have "p5 \<le> pos'" using e by (simp add: consume_def)
  ultimately show ?case using n by simp
next
  case (4 c params hs trusted pos)
  then show ?case
    by (auto simp: spanned_def node_of_def consume_def split: sum.splits
          dest!: expr_cursor exprs_mono hash_mono)
next
  case (5 v pos)
  then show ?case by simp
next
  case (6 pos)
  then show ?case by simp
next
  case (7 x xs pos)
  then show ?case by (fastforce split: sum.splits)
next
  case (8 body blockParams pos)
  let ?start = "case blockParams of
            Some names \<Rightarrow>
              snd (consume ''|}}'' (snd (consume (join '' '' names) (snd (consume '' as |'' pos)))))
          | None \<Rightarrow> snd (consume ''}}'' pos)"
  from "8.prems" obtain body1 where
    v: "AstBuilder_visits body ?start = Inr (body1, pos')" and
    m: "m = hbs_Program \<lparr>span_start = ?start, span_end = pos'\<rparr> body1 blockParams"
    by (auto simp: spanned_def node_of_def split: sum.splits)
  from "8.IH" [OF refl v] have "?start \<le> pos'" .
  with m program_start_mono [of pos blockParams] show ?case by simp
qed

subsection \<open>Hash pairs\<close>

text \<open>
  C3 at the description that \<open>mustache(path('x'), [], {a: path('b')})\<close> writes: the hash
  pair has the span from 3 to 3 and its value, the path \<open>b\<close>, the span from 3 to 4, which
  is not within the pair's span.
\<close>

theorem hash_value_outside_pair:
  "build [B_MustacheStatement (B_Path (path ''x'')) []
            (Some (hash [(''a'', B_Path (path ''b''))])) False] =
     Inr (hbs_Program \<lparr>span_start = 0, span_end = 6\<rparr>
            [hbs_MustacheStatement \<lparr>span_start = 0, span_end = 6\<rparr>
               (hbs_PathExpression \<lparr>span_start = 2, span_end = 3\<rparr>
                  (hbs_LocalReference \<lparr>span_start = 2, span_end = 3\<rparr> ''x'') None)
               []
               (Some (hbs_Hash \<lparr>span_start = 3, span_end = 4\<rparr>
                  [hbs_HashPair \<lparr>span_start = 3, span_end = 3\<rparr> ''a''
                     (hbs_PathExpression \<lparr>span_start = 3, span_end = 4\<rparr>
                        (hbs_LocalReference \<lparr>span_start = 3, span_end = 4\<rparr> ''b'') None)]))
               False NO_STRIP]
            None) \<and>
   \<not> span_within \<lparr>span_start = 3, span_end = 4\<rparr> \<lparr>span_start = 3, span_end = 3\<rparr>"
  by (simp add: build_def AstBuilder_build_def hash_def path_def spanned_def
        node_of_def consume_def AstBuilder_path_def AstBuilder_var_def AstBuilder_segments_def
        AstBuilder_exprs_def span_within_def)

text \<open>
  C10 at the hash pair \<open>a: path('b')\<close> built with the cursor at 3: one character is consumed
  while the pair is built (the cursor ends at 4), and the span of the pair has length 0.
\<close>

theorem hashPair_span_zero:
  "AstBuilder_hashPair (B_HashPair ''a'' (B_Path (path ''b''))) 3 =
     Inr (hbs_HashPair \<lparr>span_start = 3, span_end = 3\<rparr> ''a''
            (hbs_PathExpression \<lparr>span_start = 3, span_end = 4\<rparr>
               (hbs_LocalReference \<lparr>span_start = 3, span_end = 4\<rparr> ''b'') None), 4)"
  by (simp add: path_def spanned_def node_of_def consume_def AstBuilder_path_def
        AstBuilder_var_def AstBuilder_segments_def)

end
